theory Spec2Isabelle
  imports Complex_Main
begin

section \<open>SPADE autoencoder: layer descriptors\<close>

text \<open>
  The module \<open>monai/networks/nets/spade_autoencoderkl.py\<close> assembles a network from
  layers that live elsewhere (\<open>Convolution\<close>, \<open>SPADE\<close>, \<open>SpatialAttentionBlock\<close>,
  \<open>Upsample\<close>, \<open>nn.GroupNorm\<close>, \<open>Encoder\<close>). A constructed layer is modelled by the
  keyword arguments its constructor call receives, in the order the source writes them.
  Python integers are \<open>int\<close>, the float \<open>norm_eps\<close> is a \<open>real\<close>, and an argument that
  may be \<open>None\<close> is an \<open>option\<close>.
\<close>

datatype value_error = ChannelsNotMultiple | AttentionLevelsLength | NumResBlocksLength

datatype error =
    ValueError value_error
  | IndexError
  | ZeroDivisionError
  | UnboundLocalError
  | TypeError
  | RuntimeError

text \<open>\<open>Convolution(spatial_dims, in_channels, out_channels, strides, kernel_size, padding, conv_only)\<close>\<close>

datatype conv = Convolution
  (conv_spatial_dims: int) (conv_in_channels: int) (conv_out_channels: int)
  (conv_strides: int) (conv_kernel_size: int) (conv_padding: int) (conv_only: bool)

text \<open>The dictionary \<open>{"num_groups": .., "affine": .., "eps": ..}\<close> handed to \<open>SPADE\<close>.\<close>

datatype norm_params = NormParams (np_num_groups: int) (np_affine: bool) (np_eps: real)

text \<open>\<open>SPADE(label_nc, norm_nc, norm, norm_params, hidden_channels, kernel_size, spatial_dims)\<close>\<close>

datatype spade = SPADE
  (spade_label_nc: int) (spade_norm_nc: "int option") (spade_norm: string)
  (spade_norm_params: norm_params) (spade_hidden_channels: int)
  (spade_kernel_size: int) (spade_spatial_dims: int)

text \<open>\<open>nin_shortcut\<close> is either \<open>nn.Identity()\<close> or a \<open>Convolution\<close>.\<close>

datatype shortcut = Identity | ShortcutConv conv

text \<open>The attributes of a constructed \<open>SPADEResBlock\<close>.\<close>

datatype spade_res_block = SPADEResBlock
  (rb_in_channels: int) (rb_out_channels: int)
  (norm1: spade) (conv1: conv) (norm2: spade) (conv2: conv)
  (nin_shortcut: shortcut)

text \<open>\<open>SpatialAttentionBlock(spatial_dims, num_channels, norm_num_groups, norm_eps)\<close>\<close>

datatype attention = SpatialAttentionBlock
  (attn_spatial_dims: int) (attn_num_channels: int) (attn_norm_num_groups: int)
  (attn_norm_eps: real)

text \<open>\<open>Upsample(spatial_dims, mode, in_channels, out_channels, interp_mode, scale_factor,
  post_conv, align_corners)\<close>\<close>

datatype upsample = Upsample
  (up_spatial_dims: int) (up_mode: string) (up_in_channels: int) (up_out_channels: int)
  (up_interp_mode: string) (up_scale_factor: real) (up_post_conv: conv)
  (up_align_corners: "bool option")

text \<open>\<open>nn.GroupNorm(num_groups, num_channels, eps, affine)\<close>\<close>

datatype group_norm = GroupNorm
  (gn_num_groups: int) (gn_num_channels: int) (gn_eps: real) (gn_affine: bool)

text \<open>An entry of the decoder's \<open>nn.ModuleList\<close>.\<close>

datatype module =
    ConvM conv
  | ResM spade_res_block
  | AttnM attention
  | UpM upsample
  | NormM group_norm

section \<open>SPADEResBlock.__init__\<close>

text \<open>
  Arguments in the source's order: \<open>spatial_dims, in_channels, norm_num_groups, norm_eps,
  out_channels, label_nc, spade_intermediate_channels\<close>. The source tests
  \<open>out_channels is None\<close>, so \<open>out_channels\<close> is an \<open>int option\<close> here. \<open>norm2\<close> is built
  from the argument \<open>out_channels\<close>, the other layers from \<open>self.out_channels\<close>.
\<close>

definition SPADEResBlock_init ::
  "int \<Rightarrow> int \<Rightarrow> int \<Rightarrow> real \<Rightarrow> int option \<Rightarrow> int \<Rightarrow> int \<Rightarrow> spade_res_block" where
  "SPADEResBlock_init spatial_dims in_channels norm_num_groups norm_eps out_channels label_nc
      spade_intermediate_channels =
    (let self_in_channels = in_channels;
         self_out_channels = (case out_channels of None \<Rightarrow> in_channels | Some oc \<Rightarrow> oc);
         n1 = SPADE label_nc (Some in_channels) ''GROUP''
                (NormParams norm_num_groups False norm_eps)
                spade_intermediate_channels 3 spatial_dims;
         c1 = Convolution spatial_dims self_in_channels self_out_channels 1 3 1 True;
         n2 = SPADE label_nc out_channels ''GROUP''
                (NormParams norm_num_groups False norm_eps)
                spade_intermediate_channels 3 spatial_dims;
         c2 = Convolution spatial_dims self_out_channels self_out_channels 1 3 1 True;
         sc = (if self_in_channels \<noteq> self_out_channels
               then ShortcutConv
                      (Convolution spatial_dims self_in_channels self_out_channels 1 1 0 True)
               else Identity)
     in SPADEResBlock self_in_channels self_out_channels n1 c1 n2 c2 sc)"

section \<open>SPADEDecoder.__init__\<close>

text \<open>The keyword arguments of \<open>SPADEDecoder(...)\<close>.\<close>

record decoder_args =
  da_spatial_dims :: int
  da_channels :: "int list"
  da_in_channels :: int
  da_out_channels :: int
  da_num_res_blocks :: "int list"
  da_norm_num_groups :: int
  da_norm_eps :: real
  da_attention_levels :: "bool list"
  da_label_nc :: int
  da_with_nonlocal_attn :: bool
  da_spade_intermediate_channels :: int

text \<open>The attributes of a constructed \<open>SPADEDecoder\<close>.\<close>

record spade_decoder =
  dec_spatial_dims :: int
  dec_channels :: "int list"
  dec_in_channels :: int
  dec_out_channels :: int
  dec_num_res_blocks :: "int list"
  dec_norm_num_groups :: int
  dec_norm_eps :: real
  dec_attention_levels :: "bool list"
  dec_label_nc :: int
  blocks :: "module list"

text \<open>Python's \<open>xs[i]\<close> for an index \<open>i \<ge> 0\<close>: out of range raises \<open>IndexError\<close>.\<close>

definition py_getitem :: "'a list \<Rightarrow> nat \<Rightarrow> error + 'a" where
  "py_getitem xs i = (if i < length xs then Inr (xs ! i) else Inl IndexError)"

text \<open>
  The four constructor calls the decoder repeats, each with the decoder's own keyword
  arguments filled in as the source does: a 3x3 stride-1 padding-1 \<open>Convolution\<close>, a
  \<open>SPADEResBlock\<close>, a \<open>SpatialAttentionBlock\<close>, and the \<open>Upsample\<close> stage with its
  \<open>post_conv\<close>.
\<close>

definition conv3x3 :: "decoder_args \<Rightarrow> int \<Rightarrow> int \<Rightarrow> conv" where
  "conv3x3 a cin cout = Convolution (da_spatial_dims a) cin cout 1 3 1 True"

definition res_block :: "decoder_args \<Rightarrow> int \<Rightarrow> int \<Rightarrow> module" where
  "res_block a cin cout =
     ResM (SPADEResBlock_init (da_spatial_dims a) cin (da_norm_num_groups a) (da_norm_eps a)
             (Some cout) (da_label_nc a) (da_spade_intermediate_channels a))"

definition attn_block :: "decoder_args \<Rightarrow> int \<Rightarrow> module" where
  "attn_block a ch =
     AttnM (SpatialAttentionBlock (da_spatial_dims a) ch (da_norm_num_groups a) (da_norm_eps a))"

definition upsample_stage :: "decoder_args \<Rightarrow> int \<Rightarrow> module" where
  "upsample_stage a ch =
     (let post_conv = conv3x3 a ch ch
      in UpM (Upsample (da_spatial_dims a) ''nontrainable'' ch ch ''nearest'' 2 post_conv None))"

text \<open>
  The inner loop \<open>for _ in range(reversed_num_res_blocks[i])\<close>, run for \<open>k\<close> more
  iterations on the state \<open>(blocks, block_in_ch)\<close>; \<open>reversed_attention_levels[i]\<close> is
  read in every iteration.
\<close>

fun res_blocks_loop ::
  "decoder_args \<Rightarrow> bool list \<Rightarrow> nat \<Rightarrow> int \<Rightarrow> nat \<Rightarrow> module list \<times> int
     \<Rightarrow> error + (module list \<times> int)" where
  "res_blocks_loop a reversed_attention_levels i block_out_ch 0 st = Inr st"
| "res_blocks_loop a reversed_attention_levels i block_out_ch (Suc k) (blks, block_in_ch) =
     (let blks1 = blks @ [res_block a block_in_ch block_out_ch];
          block_in_ch1 = block_out_ch
      in case py_getitem reversed_attention_levels i of
           Inl e \<Rightarrow> Inl e
         | Inr flag \<Rightarrow>
             res_blocks_loop a reversed_attention_levels i block_out_ch k
               (if flag then blks1 @ [attn_block a block_in_ch1] else blks1, block_in_ch1))"

text \<open>
  The outer loop \<open>for i in range(len(reversed_block_out_channels))\<close> over the remaining
  indices, on the state \<open>(blocks, block_in_ch, block_out_ch)\<close>. \<open>block_in_ch\<close> has no
  value before the first iteration, hence the \<open>option\<close>. \<open>range(n)\<close> of a negative \<open>n\<close>
  is empty, hence \<open>nat n\<close> iterations.
\<close>

fun levels_loop ::
  "decoder_args \<Rightarrow> int list \<Rightarrow> int list \<Rightarrow> bool list \<Rightarrow> nat list
     \<Rightarrow> module list \<times> int option \<times> int \<Rightarrow> error + (module list \<times> int option \<times> int)" where
  "levels_loop a rch rnrb ratt [] st = Inr st"
| "levels_loop a rch rnrb ratt (i # rest) (blks, block_in_ch, block_out_ch) =
     (let block_in_ch0 = block_out_ch
      in case py_getitem rch i of
           Inl e \<Rightarrow> Inl e
         | Inr block_out_ch1 \<Rightarrow>
             (let is_final_block = (int i = int (length (da_channels a)) - 1)
              in case py_getitem rnrb i of
                   Inl e \<Rightarrow> Inl e
                 | Inr n \<Rightarrow>
                     (case res_blocks_loop a ratt i block_out_ch1 (nat n) (blks, block_in_ch0) of
                        Inl e \<Rightarrow> Inl e
                      | Inr (blks1, block_in_ch1) \<Rightarrow>
                          levels_loop a rch rnrb ratt rest
                            (if \<not> is_final_block then blks1 @ [upsample_stage a block_in_ch1]
                             else blks1,
                             Some block_in_ch1, block_out_ch1))))"

definition SPADEDecoder_init :: "decoder_args \<Rightarrow> error + spade_decoder" where
  "SPADEDecoder_init a =
     (let reversed_block_out_channels = rev (da_channels a)
      in case py_getitem reversed_block_out_channels 0 of
           Inl e \<Rightarrow> Inl e
         | Inr c0 \<Rightarrow>
             (let blks0 = [ConvM (conv3x3 a (da_in_channels a) c0)];
                  blks1 = (if da_with_nonlocal_attn a
                           then blks0 @ [res_block a c0 c0, attn_block a c0, res_block a c0 c0]
                           else blks0);
                  reversed_attention_levels = rev (da_attention_levels a);
                  reversed_num_res_blocks = rev (da_num_res_blocks a)
              in case levels_loop a reversed_block_out_channels reversed_num_res_blocks
                        reversed_attention_levels
                        [0 ..< length reversed_block_out_channels] (blks1, None, c0) of
                   Inl e \<Rightarrow> Inl e
                 | Inr (blks2, block_in_ch, block_out_ch) \<Rightarrow>
                     (case block_in_ch of
                        None \<Rightarrow> Inl UnboundLocalError
                      | Some ch \<Rightarrow>
                          Inr \<lparr> dec_spatial_dims = da_spatial_dims a,
                                dec_channels = da_channels a,
                                dec_in_channels = da_in_channels a,
                                dec_out_channels = da_out_channels a,
                                dec_num_res_blocks = da_num_res_blocks a,
                                dec_norm_num_groups = da_norm_num_groups a,
                                dec_norm_eps = da_norm_eps a,
                                dec_attention_levels = da_attention_levels a,
                                dec_label_nc = da_label_nc a,
                                blocks = blks2 @
                                  [NormM (GroupNorm (da_norm_num_groups a) ch (da_norm_eps a) True),
                                   ConvM (conv3x3 a ch (da_out_channels a))] \<rparr>)))"

subsection \<open>The block sequence as the specification describes it\<close>

text \<open>
  Written from the specification's construction algorithm, to be compared with
  \<open>SPADEDecoder_init\<close>. Level \<open>i\<close> has width \<open>reversed(channels)[i]\<close>; the width before it
  is that of level \<open>i - 1\<close> (of level 0 for \<open>i = 0\<close>). The specification does not say which
  width the upsample stage and the final normalisation carry: it is the width the features
  have at that point, \<open>spec_level_width\<close>, which is the level's own width as soon as the
  level has one residual block.
\<close>

definition spec_prev_width :: "decoder_args \<Rightarrow> nat \<Rightarrow> int" where
  "spec_prev_width a i =
     (if i = 0 then rev (da_channels a) ! 0 else rev (da_channels a) ! (i - 1))"

definition spec_level_count :: "decoder_args \<Rightarrow> nat \<Rightarrow> nat" where
  "spec_level_count a i = nat (rev (da_num_res_blocks a) ! i)"

definition spec_level_width :: "decoder_args \<Rightarrow> nat \<Rightarrow> int" where
  "spec_level_width a i =
     (if spec_level_count a i = 0 then spec_prev_width a i else rev (da_channels a) ! i)"

definition spec_level_blocks :: "decoder_args \<Rightarrow> nat \<Rightarrow> module list" where
  "spec_level_blocks a i =
     (let w = rev (da_channels a) ! i;
          n = spec_level_count a i;
          att = (if rev (da_attention_levels a) ! i then [attn_block a w] else [])
      in (if n = 0 then []
          else (res_block a (spec_prev_width a i) w # att)
               @ concat (replicate (n - 1) (res_block a w w # att)))
         @ (if i \<noteq> length (da_channels a) - 1 then [upsample_stage a (spec_level_width a i)]
            else []))"

definition spec_decoder_blocks :: "decoder_args \<Rightarrow> module list" where
  "spec_decoder_blocks a =
     (let w0 = rev (da_channels a) ! 0;
          levels = length (da_channels a);
          w_last = spec_level_width a (levels - 1)
      in [ConvM (Convolution (da_spatial_dims a) (da_in_channels a) w0 1 3 1 True)]
         @ (if da_with_nonlocal_attn a
            then [res_block a w0 w0, attn_block a w0, res_block a w0 w0] else [])
         @ concat (map (spec_level_blocks a) [0 ..< levels])
         @ [NormM (GroupNorm (da_norm_num_groups a) w_last (da_norm_eps a) True),
            ConvM (Convolution (da_spatial_dims a) w_last (da_out_channels a) 1 3 1 True)])"

text \<open>
  When the construction of the decoder gets through: the channel schedule is not empty,
  every level has a residual-block count, and every level with at least one residual block
  has an attention flag. Otherwise one of the list reads raises \<open>IndexError\<close>.
\<close>

definition level_ok :: "decoder_args \<Rightarrow> nat \<Rightarrow> bool" where
  "level_ok a i =
     (i < length (da_num_res_blocks a)
      \<and> (nat (rev (da_num_res_blocks a) ! i) = 0 \<or> i < length (da_attention_levels a)))"

definition decoder_args_ok :: "decoder_args \<Rightarrow> bool" where
  "decoder_args_ok a =
     (da_channels a \<noteq> [] \<and> list_all (level_ok a) [0 ..< length (da_channels a)])"

text \<open>The decoder of the default model: \<open>channels = (32, 64, 64, 64)\<close>.\<close>

definition default_decoder_args :: decoder_args where
  "default_decoder_args =
     \<lparr> da_spatial_dims = 2, da_channels = [32, 64, 64, 64], da_in_channels = 3,
       da_out_channels = 1, da_num_res_blocks = [2, 2, 2, 2], da_norm_num_groups = 32,
       da_norm_eps = 1 / 1000000, da_attention_levels = [False, False, True, True],
       da_label_nc = 3, da_with_nonlocal_attn = True,
       da_spade_intermediate_channels = 128 \<rparr>"

section \<open>The tensor substrate\<close>

text \<open>
  The layers and the tensor functions are not part of the module: they are parameters of
  the model. \<open>'t\<close> is what flows through the network (a tensor, or only its shape). A
  layer call may raise (a shape mismatch aborts the call), so it returns \<open>error + 't\<close>.
  \<open>'r\<close> is the state of the random generator that \<open>torch.randn_like\<close> advances.

  Two layers built with the same arguments are different layers: each has learned
  parameters of its own. A layer is therefore applied under the path that leads to it
  from the model, as the names of a \<open>state_dict\<close> do (\<open>decoder.blocks.3.conv1\<close>): an
  attribute name, or an index into a \<open>ModuleList\<close>.
\<close>

datatype key = Attr string | Item nat

type_synonym path = "key list"

datatype encoder = Encoder
  (enc_spatial_dims: int) (enc_in_channels: int) (enc_channels: "int list")
  (enc_out_channels: int) (enc_num_res_blocks: "int list") (enc_norm_num_groups: int)
  (enc_norm_eps: real) (enc_attention_levels: "bool list") (enc_with_nonlocal_attn: bool)

record 't layers =
  conv_apply :: "path \<Rightarrow> conv \<Rightarrow> 't \<Rightarrow> error + 't"
  spade_apply :: "path \<Rightarrow> spade \<Rightarrow> 't \<Rightarrow> 't \<Rightarrow> error + 't"
  attention_apply :: "path \<Rightarrow> attention \<Rightarrow> 't \<Rightarrow> error + 't"
  upsample_apply :: "path \<Rightarrow> upsample \<Rightarrow> 't \<Rightarrow> error + 't"
  group_norm_apply :: "path \<Rightarrow> group_norm \<Rightarrow> 't \<Rightarrow> error + 't"
  encoder_apply :: "path \<Rightarrow> encoder \<Rightarrow> 't \<Rightarrow> error + 't"

record ('t, 'r) torch =
  F_silu :: "'t \<Rightarrow> 't"
  torch_add :: "'t \<Rightarrow> 't \<Rightarrow> error + 't"
  torch_mul :: "'t \<Rightarrow> 't \<Rightarrow> error + 't"
  torch_clamp :: "'t \<Rightarrow> real \<Rightarrow> real \<Rightarrow> 't"
  torch_div :: "'t \<Rightarrow> real \<Rightarrow> 't"
  torch_exp :: "'t \<Rightarrow> 't"
  torch_randn_like :: "'t \<Rightarrow> 'r \<Rightarrow> 't \<times> 'r"

text \<open>Sequencing of calls that may raise: the first error ends the computation.\<close>

definition and_then :: "error + 'a \<Rightarrow> ('a \<Rightarrow> error + 'b) \<Rightarrow> error + 'b" where
  "and_then m f = (case m of Inl e \<Rightarrow> Inl e | Inr x \<Rightarrow> f x)"

section \<open>SPADEResBlock.forward\<close>

text \<open>\<open>p\<close> is the path of the block itself.\<close>

definition SPADEResBlock_forward ::
  "('t, 'r) torch \<Rightarrow> 't layers \<Rightarrow> path \<Rightarrow> spade_res_block \<Rightarrow> 't \<Rightarrow> 't \<Rightarrow> error + 't" where
  "SPADEResBlock_forward T L p self x seg =
     and_then (spade_apply L (p @ [Attr ''norm1'']) (norm1 self) x seg) (\<lambda>h1.
     and_then (conv_apply L (p @ [Attr ''conv1'']) (conv1 self) (F_silu T h1)) (\<lambda>h2.
     and_then (spade_apply L (p @ [Attr ''norm2'']) (norm2 self) h2 seg) (\<lambda>h3.
     and_then (conv_apply L (p @ [Attr ''conv2'']) (conv2 self) (F_silu T h3)) (\<lambda>h.
     and_then (case nin_shortcut self of
                 Identity \<Rightarrow> Inr x
               | ShortcutConv c \<Rightarrow> conv_apply L (p @ [Attr ''nin_shortcut'']) c x) (\<lambda>x1.
     torch_add T x1 h)))))"

section \<open>SPADEDecoder.forward\<close>

text \<open>
  A call \<open>block(x)\<close> or \<open>block(x, seg)\<close>: the module, the first argument, and the second
  argument when there is one. A \<open>SPADEResBlock\<close> takes two arguments, every other layer
  one; a call with the wrong number of arguments raises \<open>TypeError\<close>.
\<close>

datatype 't call = Call (call_module: module) (call_x: 't) (call_seg: "'t option")

fun isinstance_SPADEResBlock :: "module \<Rightarrow> bool" where
  "isinstance_SPADEResBlock (ResM rb) = True"
| "isinstance_SPADEResBlock m = False"

fun module_call ::
  "('t, 'r) torch \<Rightarrow> 't layers \<Rightarrow> path \<Rightarrow> module \<Rightarrow> 't \<Rightarrow> 't option \<Rightarrow> error + 't" where
  "module_call T L p (ResM rb) x (Some seg) = SPADEResBlock_forward T L p rb x seg"
| "module_call T L p (ResM rb) x None = Inl TypeError"
| "module_call T L p (ConvM c) x None = conv_apply L p c x"
| "module_call T L p (AttnM sa) x None = attention_apply L p sa x"
| "module_call T L p (UpM u) x None = upsample_apply L p u x"
| "module_call T L p (NormM n) x None = group_norm_apply L p n x"
| "module_call T L p m x (Some seg) = Inl TypeError"

text \<open>
  The loop \<open>for block in self.blocks\<close>, from the block at index \<open>i\<close> on. Besides the
  value it returns (or the error that ended it), the model records the calls the loop
  made, in order. \<open>p\<close> is the path of \<open>self.blocks\<close>.
\<close>

fun run_blocks ::
  "('t, 'r) torch \<Rightarrow> 't layers \<Rightarrow> path \<Rightarrow> nat \<Rightarrow> module list \<Rightarrow> 't \<Rightarrow> 't
     \<Rightarrow> (error + 't) \<times> 't call list" where
  "run_blocks T L p i [] x seg = (Inr x, [])"
| "run_blocks T L p i (block # rest) x seg =
     (let arg2 = (if isinstance_SPADEResBlock block then Some seg else None)
      in case module_call T L (p @ [Item i]) block x arg2 of
           Inl e \<Rightarrow> (Inl e, [Call block x arg2])
         | Inr x1 \<Rightarrow>
             (case run_blocks T L p (Suc i) rest x1 seg of
                (res, calls) \<Rightarrow> (res, Call block x arg2 # calls)))"

definition SPADEDecoder_forward ::
  "('t, 'r) torch \<Rightarrow> 't layers \<Rightarrow> path \<Rightarrow> spade_decoder \<Rightarrow> 't \<Rightarrow> 't
     \<Rightarrow> (error + 't) \<times> 't call list" where
  "SPADEDecoder_forward T L p self x seg =
     run_blocks T L (p @ [Attr ''blocks'']) 0 (blocks self) x seg"

section \<open>SPADEAutoencoderKL\<close>

text \<open>\<open>num_res_blocks: Sequence[int] | int\<close>\<close>

datatype num_res_blocks_arg = SingleInt int | PerLevel "int list"

record autoencoder_args =
  aa_spatial_dims :: int
  aa_label_nc :: int
  aa_in_channels :: int
  aa_out_channels :: int
  aa_num_res_blocks :: num_res_blocks_arg
  aa_channels :: "int list"
  aa_attention_levels :: "bool list"
  aa_latent_channels :: int
  aa_norm_num_groups :: int
  aa_norm_eps :: real
  aa_with_encoder_nonlocal_attn :: bool
  aa_with_decoder_nonlocal_attn :: bool
  aa_spade_intermediate_channels :: int

record spade_autoencoder_kl =
  encoder :: encoder
  decoder :: spade_decoder
  quant_conv_mu :: conv
  quant_conv_log_sigma :: conv
  post_quant_conv :: conv
  latent_channels :: int

text \<open>
  \<open>any((out_channel % norm_num_groups) != 0 for out_channel in channels)\<close>: the
  generator is consumed from the left and stops at the first true element; \<open>%\<close> by zero
  raises. For a non-zero divisor Python's \<open>%\<close> on integers is \<open>mod\<close> on \<open>int\<close>.
\<close>

fun any_not_multiple :: "int list \<Rightarrow> int \<Rightarrow> error + bool" where
  "any_not_multiple [] norm_num_groups = Inr False"
| "any_not_multiple (out_channel # rest) norm_num_groups =
     (if norm_num_groups = 0 then Inl ZeroDivisionError
      else if out_channel mod norm_num_groups \<noteq> 0 then Inr True
      else any_not_multiple rest norm_num_groups)"

text \<open>
  Modelled from the spec: \<open>monai.utils.ensure_tuple_rep\<close> is not in the sources. For a
  single integer, "it is broadcast to the schedule length".
\<close>

definition ensure_tuple_rep :: "int \<Rightarrow> nat \<Rightarrow> int list" where
  "ensure_tuple_rep tup n = replicate n tup"

definition SPADEAutoencoderKL_init :: "autoencoder_args \<Rightarrow> error + spade_autoencoder_kl" where
  "SPADEAutoencoderKL_init a =
     (case any_not_multiple (aa_channels a) (aa_norm_num_groups a) of
        Inl e \<Rightarrow> Inl e
      | Inr True \<Rightarrow> Inl (ValueError ChannelsNotMultiple)
      | Inr False \<Rightarrow>
          if length (aa_channels a) \<noteq> length (aa_attention_levels a)
          then Inl (ValueError AttentionLevelsLength)
          else
            (let num_res_blocks =
                   (case aa_num_res_blocks a of
                      SingleInt n \<Rightarrow> ensure_tuple_rep n (length (aa_channels a))
                    | PerLevel ns \<Rightarrow> ns)
             in if length num_res_blocks \<noteq> length (aa_channels a)
                then Inl (ValueError NumResBlocksLength)
                else
                  (let enc = Encoder (aa_spatial_dims a) (aa_in_channels a) (aa_channels a)
                               (aa_latent_channels a) num_res_blocks (aa_norm_num_groups a)
                               (aa_norm_eps a) (aa_attention_levels a)
                               (aa_with_encoder_nonlocal_attn a)
                   in case SPADEDecoder_init
                             \<lparr> da_spatial_dims = aa_spatial_dims a,
                               da_channels = aa_channels a,
                               da_in_channels = aa_latent_channels a,
                               da_out_channels = aa_out_channels a,
                               da_num_res_blocks = num_res_blocks,
                               da_norm_num_groups = aa_norm_num_groups a,
                               da_norm_eps = aa_norm_eps a,
                               da_attention_levels = aa_attention_levels a,
                               da_label_nc = aa_label_nc a,
                               da_with_nonlocal_attn = aa_with_decoder_nonlocal_attn a,
                               da_spade_intermediate_channels =
                                 aa_spade_intermediate_channels a \<rparr> of
                        Inl e \<Rightarrow> Inl e
                      | Inr dec \<Rightarrow>
                          Inr \<lparr> encoder = enc,
                                decoder = dec,
                                quant_conv_mu =
                                  Convolution (aa_spatial_dims a) (aa_latent_channels a)
                                    (aa_latent_channels a) 1 1 0 True,
                                quant_conv_log_sigma =
                                  Convolution (aa_spatial_dims a) (aa_latent_channels a)
                                    (aa_latent_channels a) 1 1 0 True,
                                post_quant_conv =
                                  Convolution (aa_spatial_dims a) (aa_latent_channels a)
                                    (aa_latent_channels a) 1 1 0 True,
                                latent_channels = aa_latent_channels a \<rparr>)))"

text \<open>
  The methods of the model (the root of the paths). The random generator is global state
  in Python; here every method takes its state and returns it, changed only by
  \<open>torch.randn_like\<close>.
\<close>

definition encode ::
  "('t, 'r) torch \<Rightarrow> 't layers \<Rightarrow> spade_autoencoder_kl \<Rightarrow> 't \<Rightarrow> 'r
     \<Rightarrow> (error + 't \<times> 't) \<times> 'r" where
  "encode T L self x rng =
     (and_then (encoder_apply L [Attr ''encoder''] (encoder self) x) (\<lambda>h.
      and_then (conv_apply L [Attr ''quant_conv_mu''] (quant_conv_mu self) h) (\<lambda>z_mu.
      and_then (conv_apply L [Attr ''quant_conv_log_sigma''] (quant_conv_log_sigma self) h)
        (\<lambda>z_log_var.
        (let z_log_var1 = torch_clamp T z_log_var (- 30) 20;
             z_sigma = torch_exp T (torch_div T z_log_var1 2)
         in Inr (z_mu, z_sigma))))), rng)"

definition sampling ::
  "('t, 'r) torch \<Rightarrow> 't \<Rightarrow> 't \<Rightarrow> 'r \<Rightarrow> (error + 't) \<times> 'r" where
  "sampling T z_mu z_sigma rng =
     (case torch_randn_like T z_sigma rng of
        (eps, rng1) \<Rightarrow>
          (and_then (torch_mul T eps z_sigma) (\<lambda>scaled. torch_add T z_mu scaled), rng1))"

definition decode ::
  "('t, 'r) torch \<Rightarrow> 't layers \<Rightarrow> spade_autoencoder_kl \<Rightarrow> 't \<Rightarrow> 't \<Rightarrow> 'r
     \<Rightarrow> (error + 't) \<times> 'r" where
  "decode T L self z seg rng =
     (and_then (conv_apply L [Attr ''post_quant_conv''] (post_quant_conv self) z) (\<lambda>z1.
        fst (SPADEDecoder_forward T L [Attr ''decoder''] (decoder self) z1 seg)), rng)"

definition reconstruct ::
  "('t, 'r) torch \<Rightarrow> 't layers \<Rightarrow> spade_autoencoder_kl \<Rightarrow> 't \<Rightarrow> 't \<Rightarrow> 'r
     \<Rightarrow> (error + 't) \<times> 'r" where
  "reconstruct T L self x seg rng =
     (case encode T L self x rng of
        (Inl e, rng1) \<Rightarrow> (Inl e, rng1)
      | (Inr (z_mu, z_sigma), rng1) \<Rightarrow> decode T L self z_mu seg rng1)"

definition forward ::
  "('t, 'r) torch \<Rightarrow> 't layers \<Rightarrow> spade_autoencoder_kl \<Rightarrow> 't \<Rightarrow> 't \<Rightarrow> 'r
     \<Rightarrow> (error + 't \<times> 't \<times> 't) \<times> 'r" where
  "forward T L self x seg rng =
     (case encode T L self x rng of
        (Inl e, rng1) \<Rightarrow> (Inl e, rng1)
      | (Inr (z_mu, z_sigma), rng1) \<Rightarrow>
          (case sampling T z_mu z_sigma rng1 of
             (Inl e, rng2) \<Rightarrow> (Inl e, rng2)
           | (Inr z, rng2) \<Rightarrow>
               (case decode T L self z seg rng2 of
                  (Inl e, rng3) \<Rightarrow> (Inl e, rng3)
                | (Inr reconstruction, rng3) \<Rightarrow> (Inr (reconstruction, z_mu, z_sigma), rng3))))"

section \<open>Tensors of real numbers\<close>

text \<open>
  A tensor is its shape and its elements in row-major order; the elements are real
  numbers, so rounding and the special values of floating point are outside the model.
  The tensor functions of \<open>torch\<close> that the module calls are elementwise. Two operands
  of the same shape are combined element by element; what \<open>torch\<close> does with operands of
  different shapes (broadcasting, or an error) is left to the parameter \<open>broadcast\<close>.
  The generator state is the sequence of numbers it will draw.
\<close>

datatype tensor = Tensor (shape: "nat list") (data: "real list")

definition wf_tensor :: "tensor \<Rightarrow> bool" where
  "wf_tensor t = (length (data t) = prod_list (shape t))"

definition elementwise ::
  "((real \<Rightarrow> real \<Rightarrow> real) \<Rightarrow> tensor \<Rightarrow> tensor \<Rightarrow> error + tensor)
     \<Rightarrow> (real \<Rightarrow> real \<Rightarrow> real) \<Rightarrow> tensor \<Rightarrow> tensor \<Rightarrow> error + tensor" where
  "elementwise broadcast f a b =
     (if shape a = shape b then Inr (Tensor (shape a) (map2 f (data a) (data b)))
      else broadcast f a b)"

definition real_torch ::
  "((real \<Rightarrow> real \<Rightarrow> real) \<Rightarrow> tensor \<Rightarrow> tensor \<Rightarrow> error + tensor)
     \<Rightarrow> (tensor, nat \<Rightarrow> real) torch" where
  "real_torch broadcast =
     \<lparr> F_silu = (\<lambda>t. Tensor (shape t) (map (\<lambda>v. v * (1 / (1 + exp (- v)))) (data t))),
       torch_add = elementwise broadcast (+),
       torch_mul = elementwise broadcast (*),
       torch_clamp = (\<lambda>t lo hi. Tensor (shape t) (map (\<lambda>v. min (max v lo) hi) (data t))),
       torch_div = (\<lambda>t c. Tensor (shape t) (map (\<lambda>v. v / c) (data t))),
       torch_exp = (\<lambda>t. Tensor (shape t) (map exp (data t))),
       torch_randn_like = (\<lambda>t rng.
          (Tensor (shape t) (map rng [0 ..< prod_list (shape t)]),
           \<lambda>i. rng (i + prod_list (shape t)))) \<rparr>"

section \<open>Concrete inputs\<close>

text \<open>
  The configuration of the specification's end-to-end scenario (the arguments it does not
  name keep the defaults of the source), the same with an empty channel schedule, and a
  one-level decoder.
\<close>

definition example_args :: autoencoder_args where
  "example_args =
     \<lparr> aa_spatial_dims = 2, aa_label_nc = 2, aa_in_channels = 1, aa_out_channels = 1,
       aa_num_res_blocks = SingleInt 2, aa_channels = [32, 64],
       aa_attention_levels = [False, False], aa_latent_channels = 3,
       aa_norm_num_groups = 32, aa_norm_eps = 1 / 1000000,
       aa_with_encoder_nonlocal_attn = True, aa_with_decoder_nonlocal_attn = True,
       aa_spade_intermediate_channels = 128 \<rparr>"

definition empty_channels_args :: autoencoder_args where
  "empty_channels_args = example_args \<lparr> aa_channels := [], aa_attention_levels := [] \<rparr>"

definition small_decoder_args :: decoder_args where
  "small_decoder_args =
     \<lparr> da_spatial_dims = 2, da_channels = [32], da_in_channels = 3,
       da_out_channels = 1, da_num_res_blocks = [1], da_norm_num_groups = 32,
       da_norm_eps = 1 / 1000000, da_attention_levels = [True],
       da_label_nc = 2, da_with_nonlocal_attn = False,
       da_spade_intermediate_channels = 128 \<rparr>"

text \<open>Layers that return their input unchanged, to run the model on concrete tensors.\<close>

definition identity_layers :: "tensor layers" where
  "identity_layers =
     \<lparr> conv_apply = (\<lambda>p c x. Inr x),
       spade_apply = (\<lambda>p n x seg. Inr x),
       attention_apply = (\<lambda>p sa x. Inr x),
       upsample_apply = (\<lambda>p u x. Inr x),
       group_norm_apply = (\<lambda>p n x. Inr x),
       encoder_apply = (\<lambda>p e x. Inr x) \<rparr>"

section \<open>The validated conditions of the constructor\<close>

text \<open>
  The three conditions the specification lists: (1) some channel width is not a multiple
  of \<open>norm_num_groups\<close>, (2) the attention schedule has another length than the channel
  schedule, (3) \<open>num_res_blocks\<close> is a sequence of another length than the channel
  schedule.
\<close>

definition not_all_multiples :: "autoencoder_args \<Rightarrow> bool" where
  "not_all_multiples a = (\<exists>c \<in> set (aa_channels a). c mod aa_norm_num_groups a \<noteq> 0)"

definition attention_length_differs :: "autoencoder_args \<Rightarrow> bool" where
  "attention_length_differs a = (length (aa_channels a) \<noteq> length (aa_attention_levels a))"

definition res_blocks_length_differs :: "autoencoder_args \<Rightarrow> bool" where
  "res_blocks_length_differs a =
     (case aa_num_res_blocks a of
        SingleInt n \<Rightarrow> False
      | PerLevel ns \<Rightarrow> length ns \<noteq> length (aa_channels a))"

text \<open>The keyword arguments \<open>SPADEAutoencoderKL.__init__\<close> hands to \<open>SPADEDecoder\<close>.\<close>

definition autoencoder_decoder_args :: "autoencoder_args \<Rightarrow> decoder_args" where
  "autoencoder_decoder_args a =
     \<lparr> da_spatial_dims = aa_spatial_dims a,
       da_channels = aa_channels a,
       da_in_channels = aa_latent_channels a,
       da_out_channels = aa_out_channels a,
       da_num_res_blocks =
         (case aa_num_res_blocks a of
            SingleInt n \<Rightarrow> replicate (length (aa_channels a)) n
          | PerLevel ns \<Rightarrow> ns),
       da_norm_num_groups = aa_norm_num_groups a,
       da_norm_eps = aa_norm_eps a,
       da_attention_levels = aa_attention_levels a,
       da_label_nc = aa_label_nc a,
       da_with_nonlocal_attn = aa_with_decoder_nonlocal_attn a,
       da_spade_intermediate_channels = aa_spade_intermediate_channels a \<rparr>"

section \<open>Shapes\<close>

text \<open>
  The second instance of the substrate: what flows through the network is the shape of
  a tensor, the list \<open>[B, C, d1, ..., dn]\<close>. The generator state plays no role and is
  the unit value.
\<close>

text \<open>
  Modelled from the spec: the forward pass of \<open>Convolution\<close> is not in the sources. The
  specification gives the contract of the convolutions this module builds: a tensor
  \<open>B x Cin x spatial\<close> goes to \<open>B x Cout x spatial\<close> (3x3, stride 1, padding 1, and the
  1x1 projections). The channel count and the number of spatial dimensions must be those
  the layer was built for; the output size per dimension is written with the usual formula
  \<open>(n + 2 * padding - kernel) div stride + 1\<close>, which is \<open>n\<close> for both kinds.
\<close>

definition conv_shape :: "conv \<Rightarrow> nat list \<Rightarrow> error + nat list" where
  "conv_shape c s =
     (case s of
        b # ch # sp \<Rightarrow>
          if int ch = conv_in_channels c \<and> int (length sp) = conv_spatial_dims c
             \<and> 0 \<le> conv_out_channels c \<and> 0 < conv_strides c
             \<and> list_all (\<lambda>n. conv_kernel_size c \<le> int n + 2 * conv_padding c) sp
          then Inr (b # nat (conv_out_channels c)
                      # map (\<lambda>n. nat ((int n + 2 * conv_padding c - conv_kernel_size c)
                                         div conv_strides c + 1)) sp)
          else Inl RuntimeError
      | _ \<Rightarrow> Inl RuntimeError)"

text \<open>
  Modelled from the spec: the forward pass of \<open>SPADE\<close> is not in the sources. It
  normalises a feature tensor of \<open>norm_nc\<close> channels and keeps its shape; the segmentation
  tensor is \<open>batch x label-channels x spatial-dims\<close> and is resized inside to the
  resolution of the features, so only its batch size, channel count and number of spatial
  dimensions must fit. A layer built with \<open>norm_nc = None\<close> accepts no tensor.
\<close>

definition spade_shape :: "spade \<Rightarrow> nat list \<Rightarrow> nat list \<Rightarrow> error + nat list" where
  "spade_shape n x seg =
     (case x of
        b # ch # sp \<Rightarrow>
          (case seg of
             sb # sc # ssp \<Rightarrow>
               if spade_norm_nc n = Some (int ch) \<and> sb = b \<and> int sc = spade_label_nc n
                  \<and> length ssp = length sp \<and> int (length sp) = spade_spatial_dims n
               then Inr x else Inl RuntimeError
           | _ \<Rightarrow> Inl RuntimeError)
      | _ \<Rightarrow> Inl RuntimeError)"

text \<open>
  Modelled from the spec: \<open>SpatialAttentionBlock\<close> ("self-attention over spatial
  positions") and \<open>nn.GroupNorm\<close> are not in the sources; both keep the shape of a tensor
  with the channel count they were built for.
\<close>

definition attention_shape :: "attention \<Rightarrow> nat list \<Rightarrow> error + nat list" where
  "attention_shape sa x =
     (case x of
        b # ch # sp \<Rightarrow>
          if int ch = attn_num_channels sa \<and> int (length sp) = attn_spatial_dims sa
          then Inr x else Inl RuntimeError
      | _ \<Rightarrow> Inl RuntimeError)"

definition group_norm_shape :: "group_norm \<Rightarrow> nat list \<Rightarrow> error + nat list" where
  "group_norm_shape gn x =
     (case x of
        b # ch # sp \<Rightarrow> if int ch = gn_num_channels gn then Inr x else Inl RuntimeError
      | _ \<Rightarrow> Inl RuntimeError)"

text \<open>
  Modelled from the spec: the forward pass of \<open>Upsample\<close> is not in the sources. The
  stage is "a spatial-resolution-doubling upsample (nearest-neighbor x2)" with the
  \<open>post_conv\<close> convolution fused in: every spatial size is multiplied by \<open>scale_factor\<close>
  (rounded down), then \<open>post_conv\<close> is applied.
\<close>

definition upsample_shape :: "upsample \<Rightarrow> nat list \<Rightarrow> error + nat list" where
  "upsample_shape u x =
     (case x of
        b # ch # sp \<Rightarrow>
          if int ch = up_in_channels u \<and> int (length sp) = up_spatial_dims u
          then conv_shape (up_post_conv u)
                 (b # ch # map (\<lambda>n. nat \<lfloor>real n * up_scale_factor u\<rfloor>) sp)
          else Inl RuntimeError
      | _ \<Rightarrow> Inl RuntimeError)"

text \<open>
  The shape of \<open>a + b\<close> and \<open>a * b\<close> in \<open>torch\<close>: the shapes are aligned at their last
  dimension; two sizes fit when they are equal or one of them is 1.
\<close>

fun broadcast_rev :: "nat list \<Rightarrow> nat list \<Rightarrow> error + nat list" where
  "broadcast_rev [] ys = Inr ys"
| "broadcast_rev (x # xs) [] = Inr (x # xs)"
| "broadcast_rev (x # xs) (y # ys) =
     (if x = y \<or> y = 1 then and_then (broadcast_rev xs ys) (\<lambda>r. Inr (x # r))
      else if x = 1 then and_then (broadcast_rev xs ys) (\<lambda>r. Inr (y # r))
      else Inl RuntimeError)"

definition broadcast_shapes :: "nat list \<Rightarrow> nat list \<Rightarrow> error + nat list" where
  "broadcast_shapes a b = and_then (broadcast_rev (rev a) (rev b)) (\<lambda>r. Inr (rev r))"

text \<open>
  The \<open>Encoder\<close> is not in the sources, and the specification does not say by how much
  it reduces the spatial sizes: the function that gives the shape of its output is a
  parameter.
\<close>

definition shape_layers :: "(encoder \<Rightarrow> nat list \<Rightarrow> error + nat list) \<Rightarrow> nat list layers" where
  "shape_layers E =
     \<lparr> conv_apply = (\<lambda>p. conv_shape),
       spade_apply = (\<lambda>p. spade_shape),
       attention_apply = (\<lambda>p. attention_shape),
       upsample_apply = (\<lambda>p. upsample_shape),
       group_norm_apply = (\<lambda>p. group_norm_shape),
       encoder_apply = (\<lambda>p. E) \<rparr>"

definition shape_torch :: "(nat list, 'r) torch" where
  "shape_torch =
     \<lparr> F_silu = (\<lambda>s. s),
       torch_add = broadcast_shapes,
       torch_mul = broadcast_shapes,
       torch_clamp = (\<lambda>s lo hi. s),
       torch_div = (\<lambda>s c. s),
       torch_exp = (\<lambda>s. s),
       torch_randn_like = (\<lambda>s rng. (s, rng)) \<rparr>"

text \<open>For the examples: an encoder whose output has the given shape.\<close>

definition encoder_returning :: "nat list \<Rightarrow> encoder \<Rightarrow> nat list \<Rightarrow> error + nat list" where
  "encoder_returning s e x = Inr s"

text \<open>
  Feature shapes the decoder accepts: as many spatial sizes as \<open>spatial_dims\<close>, each at
  least 1; and a segmentation tensor that fits them.
\<close>

definition spatial_ok :: "int \<Rightarrow> nat list \<Rightarrow> bool" where
  "spatial_ok sd sp = (int (length sp) = sd \<and> list_all (\<lambda>n. 1 \<le> n) sp)"

definition seg_ok :: "decoder_args \<Rightarrow> nat \<Rightarrow> nat list \<Rightarrow> bool" where
  "seg_ok a b seg =
     (\<exists>ssp. seg = b # nat (da_label_nc a) # ssp \<and> int (length ssp) = da_spatial_dims a
            \<and> 0 \<le> da_label_nc a)"

text \<open>\<open>bs\<close> takes a feature shape \<open>x\<close> to \<open>y\<close>, wherever the blocks sit in the list.\<close>

definition takes_shape ::
  "(encoder \<Rightarrow> nat list \<Rightarrow> error + nat list) \<Rightarrow> nat list \<Rightarrow> module list \<Rightarrow> nat list \<Rightarrow> nat list
     \<Rightarrow> bool" where
  "takes_shape E seg bs x y =
     (\<forall>p i. fst (run_blocks (shape_torch :: (nat list, unit) torch) (shape_layers E) p i bs x seg)
              = Inr y)"

text \<open>
  The schedules a decoder can run on: non-negative widths and at least one residual block
  on every level (a level without one leaves the next level's first block with an input
  width the features do not have).
\<close>

definition schedule_ok :: "decoder_args \<Rightarrow> bool" where
  "schedule_ok a =
     (da_channels a \<noteq> []
      \<and> length (da_num_res_blocks a) = length (da_channels a)
      \<and> length (da_attention_levels a) = length (da_channels a)
      \<and> list_all (\<lambda>c. 0 \<le> c) (da_channels a)
      \<and> list_all (\<lambda>n. 1 \<le> n) (da_num_res_blocks a)
      \<and> 0 \<le> da_in_channels a \<and> 0 \<le> da_out_channels a)"

definition res_blocks_positive :: "autoencoder_args \<Rightarrow> bool" where
  "res_blocks_positive a =
     (case aa_num_res_blocks a of
        SingleInt n \<Rightarrow> 1 \<le> n
      | PerLevel ns \<Rightarrow> list_all (\<lambda>n. 1 \<le> n) ns)"

definition widths_ok :: "autoencoder_args \<Rightarrow> bool" where
  "widths_ok a =
     (list_all (\<lambda>c. 0 \<le> c) (aa_channels a) \<and> 0 \<le> aa_latent_channels a
      \<and> 0 \<le> aa_out_channels a \<and> 0 \<le> aa_label_nc a)"

section \<open>Properties of SPADEResBlock construction\<close>



text \<open>
  C10: \<open>norm2\<close> is parameterised with the argument \<open>out_channels\<close> as given, whatever it
  is; with \<open>None\<close> it receives \<open>None\<close> while \<open>conv1\<close>, \<open>conv2\<close> and the shortcut are built
  from the resolved width \<open>in_channels\<close>.
\<close>

theorem SPADEResBlock_norm2_raw_out_channels:
  "spade_norm_nc (norm2 (SPADEResBlock_init sd ic g eps oc l h)) = oc
   \<and> norm2 (SPADEResBlock_init sd ic g eps oc l h)
       = SPADE l oc ''GROUP'' (NormParams g False eps) h 3 sd
   \<and> spade_norm_nc (norm2 (SPADEResBlock_init sd ic g eps None l h)) = None
   \<and> spade_norm_nc (norm2 (SPADEResBlock_init sd ic g eps None l h)) \<noteq> Some ic
   \<and> rb_out_channels (SPADEResBlock_init sd ic g eps None l h) = ic
   \<and> conv_out_channels (conv1 (SPADEResBlock_init sd ic g eps None l h)) = ic
   \<and> conv_in_channels (conv2 (SPADEResBlock_init sd ic g eps None l h)) = ic
   \<and> conv_out_channels (conv2 (SPADEResBlock_init sd ic g eps None l h)) = ic
   \<and> nin_shortcut (SPADEResBlock_init sd ic g eps None l h) = Identity"
  by (simp add: SPADEResBlock_init_def Let_def)

section \<open>The block sequence of the decoder\<close>

lemma res_blocks_loop_result:
  assumes "k = 0 \<or> i < length ratt"
  shows "res_blocks_loop a ratt i w k (bs, cin) =
     Inr (bs @ (if k = 0 then []
                else (res_block a cin w # (if ratt ! i then [attn_block a w] else []))
                     @ concat (replicate (k - 1)
                         (res_block a w w # (if ratt ! i then [attn_block a w] else [])))),
          if k = 0 then cin else w)"
  using assms
proof (induction k arbitrary: bs cin)
  case 0
  then show ?case by simp
next
  case (Suc k)
  then have i: "i < length ratt" by simp
  show ?case
  proof (cases k)
    case 0
    then show ?thesis using i by (simp add: py_getitem_def)
  next
    case (Suc j)
    then show ?thesis using i Suc.IH[of _ w] 
      by (simp add: py_getitem_def)
  qed
qed

lemma levels_loop_step:
  assumes m: "m < length rch"
    and len: "length rch = length (da_channels a)"
    and rch: "rch = rev (da_channels a)"
    and rnrb: "rnrb = rev (da_num_res_blocks a)"
    and ratt: "ratt = rev (da_attention_levels a)"
    and ok: "m < length rnrb \<and> (nat (rnrb ! m) = 0 \<or> m < length ratt)"
    and bout: "bout = spec_prev_width a m"
  shows "levels_loop a rch rnrb ratt (m # rest) (bs, bin, bout) =
         levels_loop a rch rnrb ratt rest
           (bs @ spec_level_blocks a m, Some (spec_level_width a m), rch ! m)"
proof -
  have fin: "(int m = int (length (da_channels a)) - 1) = (m = length (da_channels a) - 1)"
    using m len by auto
  have k: "nat (rnrb ! m) = 0 \<or> m < length ratt" using ok by simp
  show ?thesis
    using m ok
    by (simp add: py_getitem_def res_blocks_loop_result[OF k] fin Let_def
        spec_level_blocks_def spec_level_width_def spec_level_count_def
        rch[symmetric] rnrb[symmetric] ratt[symmetric] bout)
qed

lemma levels_loop_result:
  assumes len: "length rch = length (da_channels a)"
    and rch: "rch = rev (da_channels a)"
    and rnrb: "rnrb = rev (da_num_res_blocks a)"
    and ratt: "ratt = rev (da_attention_levels a)"
    and ok: "\<forall>i < length rch. i < length rnrb \<and> (nat (rnrb ! i) = 0 \<or> i < length ratt)"
  shows "m \<le> length rch \<Longrightarrow> bout = spec_prev_width a m \<Longrightarrow>
         levels_loop a rch rnrb ratt [m ..< length rch] (bs, bin, bout) =
         Inr (bs @ concat (map (spec_level_blocks a) [m ..< length rch]),
              if m < length rch then Some (spec_level_width a (length rch - 1)) else bin,
              if m < length rch then rch ! (length rch - 1) else bout)"
proof (induction d \<equiv> "length rch - m" arbitrary: m bs bin bout)
  case 0
  then show ?case by simp
next
  case (Suc d)
  then have m: "m < length rch" by simp
  have okm: "m < length rnrb \<and> (nat (rnrb ! m) = 0 \<or> m < length ratt)"
    using ok m by simp
  have prev: "rch ! m = spec_prev_width a (Suc m)"
    by (simp add: spec_prev_width_def rch)
  have d: "d = length rch - Suc m" using Suc.hyps by simp
  have step: "levels_loop a rch rnrb ratt [m ..< length rch] (bs, bin, bout) =
      levels_loop a rch rnrb ratt [Suc m ..< length rch]
        (bs @ spec_level_blocks a m, Some (spec_level_width a m), rch ! m)"
    using levels_loop_step[OF m len rch rnrb ratt okm Suc.prems(2)] m
    by (simp add: upt_conv_Cons)
  have ih: "levels_loop a rch rnrb ratt [Suc m ..< length rch]
        (bs @ spec_level_blocks a m, Some (spec_level_width a m), rch ! m) =
      Inr ((bs @ spec_level_blocks a m) @ concat (map (spec_level_blocks a) [Suc m ..< length rch]),
           if Suc m < length rch then Some (spec_level_width a (length rch - 1))
           else Some (spec_level_width a m),
           if Suc m < length rch then rch ! (length rch - 1) else rch ! m)"
    using Suc.hyps(1)[OF d _ prev] m by simp
  have last: "\<not> Suc m < length rch \<Longrightarrow> m = length rch - 1" using m by simp
  have cat: "concat (map (spec_level_blocks a) [m ..< length rch]) =
      spec_level_blocks a m @ concat (map (spec_level_blocks a) [Suc m ..< length rch])"
    using m by (simp add: upt_conv_Cons)
  show ?case
    unfolding step ih cat using m last by auto
qed

lemma res_blocks_loop_fail:
  "\<not> i < length ratt \<Longrightarrow> k \<noteq> 0 \<Longrightarrow> res_blocks_loop a ratt i w k st = Inl IndexError"
  by (cases k; cases st) (simp_all add: py_getitem_def)

lemma levels_loop_bad_step:
  assumes "m < length (da_channels a)" "\<not> level_ok a m"
  shows "levels_loop a (rev (da_channels a)) (rev (da_num_res_blocks a))
           (rev (da_attention_levels a)) (m # rest) st = Inl IndexError"
  using assms
  by (cases st) (auto simp add: level_ok_def py_getitem_def Let_def res_blocks_loop_fail)

lemma levels_loop_ok_step:
  assumes "m < length (da_channels a)" "level_ok a m"
  shows "\<exists>st'. levels_loop a (rev (da_channels a)) (rev (da_num_res_blocks a))
           (rev (da_attention_levels a)) (m # rest) st =
         levels_loop a (rev (da_channels a)) (rev (da_num_res_blocks a))
           (rev (da_attention_levels a)) rest st'"
proof -
  obtain bs bin bout where st: "st = (bs, bin, bout)" by (cases st)
  have k: "nat (rev (da_num_res_blocks a) ! m) = 0 \<or> m < length (rev (da_attention_levels a))"
    using assms(2) by (simp add: level_ok_def)
  obtain bs1 c1 where r: "res_blocks_loop a (rev (da_attention_levels a)) m
       (rev (da_channels a) ! m) (nat (rev (da_num_res_blocks a) ! m)) (bs, bout) = Inr (bs1, c1)"
    using res_blocks_loop_result[OF k] by blast
  have "m < length (da_num_res_blocks a)" using assms(2) by (simp add: level_ok_def)
  then show ?thesis
    using assms(1) unfolding st
    by (simp add: py_getitem_def Let_def r del: nat_eq_iff2 nat_le_0) blast
qed

lemma levels_loop_fail:
  "m \<le> i \<Longrightarrow> i < length (da_channels a) \<Longrightarrow> \<not> level_ok a i \<Longrightarrow>
   levels_loop a (rev (da_channels a)) (rev (da_num_res_blocks a))
     (rev (da_attention_levels a)) [m ..< length (da_channels a)] st = Inl IndexError"
proof (induction d \<equiv> "i - m" arbitrary: m st)
  case 0
  then have "m = i" by simp
  then show ?case
    using 0 levels_loop_bad_step[of i a] by (simp add: upt_conv_Cons)
next
  case (Suc d)
  then have m: "m < i" "m < length (da_channels a)" by simp_all
  have up: "[m ..< length (da_channels a)] = m # [Suc m ..< length (da_channels a)]"
    using m by (simp add: upt_conv_Cons)
  show ?case
  proof (cases rule: case_split[of "level_ok a m"])
    case True
    obtain st' where "levels_loop a (rev (da_channels a)) (rev (da_num_res_blocks a))
           (rev (da_attention_levels a)) (m # [Suc m ..< length (da_channels a)]) st =
         levels_loop a (rev (da_channels a)) (rev (da_num_res_blocks a))
           (rev (da_attention_levels a)) [Suc m ..< length (da_channels a)] st'"
      using levels_loop_ok_step[OF m(2) True] by blast
    moreover have "levels_loop a (rev (da_channels a)) (rev (da_num_res_blocks a))
           (rev (da_attention_levels a)) [Suc m ..< length (da_channels a)] st' = Inl IndexError"
      using Suc.hyps(1)[of "Suc m" st'] Suc.hyps(2) Suc.prems m by simp
    ultimately show ?thesis by (simp add: up)
  next
    case False
    then show ?thesis using levels_loop_bad_step[OF m(2)] by (simp add: up)
  qed
qed

lemma SPADEDecoder_init_blocks:
  "map_sum id blocks (SPADEDecoder_init a) =
     (if decoder_args_ok a then Inr (spec_decoder_blocks a) else Inl IndexError)"
proof (cases rule: case_split[of "da_channels a = []"])
  case True
  then show ?thesis
    by (simp add: SPADEDecoder_init_def decoder_args_ok_def py_getitem_def)
next
  case ne: False
  then have pos: "0 < length (da_channels a)" by simp
  show ?thesis
  proof (cases rule: case_split[of "list_all (level_ok a) [0 ..< length (da_channels a)]"])
    case True
    have ok: "\<forall>i < length (rev (da_channels a)). i < length (rev (da_num_res_blocks a))
        \<and> (nat (rev (da_num_res_blocks a) ! i) = 0 \<or> i < length (rev (da_attention_levels a)))"
      using True by (simp add: list_all_iff level_ok_def)
    have loop: "levels_loop a (rev (da_channels a)) (rev (da_num_res_blocks a))
        (rev (da_attention_levels a)) [0 ..< length (da_channels a)] (bs, None, rev (da_channels a) ! 0) =
      Inr (bs @ concat (map (spec_level_blocks a) [0 ..< length (da_channels a)]),
           Some (spec_level_width a (length (da_channels a) - 1)),
           rev (da_channels a) ! (length (da_channels a) - 1))" for bs
      using levels_loop_result[OF _ refl refl refl ok, of 0 "rev (da_channels a) ! 0" bs None] pos
      by (simp add: spec_prev_width_def)
    show ?thesis
      using ne True pos
      by (simp add: SPADEDecoder_init_def decoder_args_ok_def py_getitem_def Let_def loop
          spec_decoder_blocks_def conv3x3_def)
  next
    case False
    then obtain i where i: "i < length (da_channels a)" "\<not> level_ok a i"
      by (auto simp add: list_all_iff)
    have "levels_loop a (rev (da_channels a)) (rev (da_num_res_blocks a))
        (rev (da_attention_levels a)) [0 ..< length (da_channels a)] st = Inl IndexError" for st
      using levels_loop_fail[of 0 i a st] i by simp
    then show ?thesis
      using ne False pos
      by (simp add: SPADEDecoder_init_def decoder_args_ok_def py_getitem_def Let_def)
  qed
qed

text \<open>
  C1: every construction of \<open>SPADEDecoder\<close> either raises \<open>IndexError\<close> (an empty channel
  schedule, or a level without a residual-block count or attention flag) or assembles
  exactly the block sequence of the specification: the initial 3x3 convolution to
  \<open>reversed(channels)[0]\<close>; with \<open>with_nonlocal_attn\<close>, a residual block, an attention
  block and a residual block at that width; per level \<open>i\<close>, in reversed order,
  \<open>reversed(num_res_blocks)[i]\<close> residual blocks of which only the first changes the
  width, each followed by an attention block iff \<open>reversed(attention_levels)[i]\<close>, then
  an upsample stage iff the level is not the last; finally the group normalisation and
  the 3x3 convolution to \<open>out_channels\<close>.
\<close>

theorem SPADEDecoder_block_sequence:
  "map_sum id blocks (SPADEDecoder_init a) =
     (if decoder_args_ok a then Inr (spec_decoder_blocks a) else Inl IndexError)"
  by (rule SPADEDecoder_init_blocks)

text \<open>
  The default decoder, \<open>channels = (32, 64, 64, 64)\<close>, attention on the last two levels:
  its construction succeeds, its blocks are the 21 listed, and its levels have the widths
  64, 64, 64, 32 in that order.
\<close>

theorem SPADEDecoder_block_sequence_default:
  "decoder_args_ok default_decoder_args
   \<and> map_sum id blocks (SPADEDecoder_init default_decoder_args) =
       Inr [ConvM (conv3x3 default_decoder_args 3 64),
            res_block default_decoder_args 64 64,
            attn_block default_decoder_args 64,
            res_block default_decoder_args 64 64,
            res_block default_decoder_args 64 64, attn_block default_decoder_args 64,
            res_block default_decoder_args 64 64, attn_block default_decoder_args 64,
            upsample_stage default_decoder_args 64,
            res_block default_decoder_args 64 64, attn_block default_decoder_args 64,
            res_block default_decoder_args 64 64, attn_block default_decoder_args 64,
            upsample_stage default_decoder_args 64,
            res_block default_decoder_args 64 64,
            res_block default_decoder_args 64 64,
            upsample_stage default_decoder_args 64,
            res_block default_decoder_args 64 32,
            res_block default_decoder_args 32 32,
            NormM (GroupNorm 32 32 (1 / 1000000) True),
            ConvM (conv3x3 default_decoder_args 32 1)]
   \<and> map (spec_level_width default_decoder_args) [0, 1, 2, 3] = [64, 64, 64, 32]"
proof -
  have ok: "decoder_args_ok default_decoder_args"
    by (simp add: decoder_args_ok_def level_ok_def default_decoder_args_def)
  have w: "map (spec_level_width default_decoder_args) [0, 1, 2, 3] = [64, 64, 64, 32]"
    by (simp add: spec_level_width_def spec_level_count_def spec_prev_width_def
        default_decoder_args_def)
  have sp: "spec_decoder_blocks default_decoder_args =
           [ConvM (conv3x3 default_decoder_args 3 64),
            res_block default_decoder_args 64 64,
            attn_block default_decoder_args 64,
            res_block default_decoder_args 64 64,
            res_block default_decoder_args 64 64, attn_block default_decoder_args 64,
            res_block default_decoder_args 64 64, attn_block default_decoder_args 64,
            upsample_stage default_decoder_args 64,
            res_block default_decoder_args 64 64, attn_block default_decoder_args 64,
            res_block default_decoder_args 64 64, attn_block default_decoder_args 64,
            upsample_stage default_decoder_args 64,
            res_block default_decoder_args 64 64,
            res_block default_decoder_args 64 64,
            upsample_stage default_decoder_args 64,
            res_block default_decoder_args 64 32,
            res_block default_decoder_args 32 32,
            NormM (GroupNorm 32 32 (1 / 1000000) True),
            ConvM (conv3x3 default_decoder_args 32 1)]"
    by (simp add: spec_decoder_blocks_def spec_level_blocks_def spec_level_width_def
        spec_level_count_def spec_prev_width_def conv3x3_def Let_def
        default_decoder_args_def)
  show ?thesis
    using SPADEDecoder_block_sequence[of default_decoder_args] ok w sp by simp
qed

section \<open>Construction of the autoencoder\<close>

lemma any_not_multiple_result:
  "any_not_multiple cs g =
     (if cs \<noteq> [] \<and> g = 0 then Inl ZeroDivisionError
      else Inr (\<exists>c \<in> set cs. c mod g \<noteq> 0))"
  by (induction cs) auto

lemma decoder_args_ok_equal_lengths:
  assumes "da_channels a \<noteq> []"
    and "length (da_num_res_blocks a) = length (da_channels a)"
    and "length (da_attention_levels a) = length (da_channels a)"
  shows "decoder_args_ok a"
  using assms by (simp add: decoder_args_ok_def level_ok_def list_all_iff)

lemma SPADEDecoder_init_succeeds:
  assumes "decoder_args_ok a"
  shows "\<exists>d. SPADEDecoder_init a = Inr d \<and> blocks d = spec_decoder_blocks a"
proof -
  have "map_sum id blocks (SPADEDecoder_init a) = Inr (spec_decoder_blocks a)"
    using assms by (simp add: SPADEDecoder_init_blocks)
  then show ?thesis by (cases "SPADEDecoder_init a") auto
qed

lemma SPADEDecoder_init_empty:
  "da_channels a = [] \<Longrightarrow> SPADEDecoder_init a = Inl IndexError"
  by (simp add: SPADEDecoder_init_def py_getitem_def)

lemma SPADEAutoencoderKL_init_outcome:
  "map_sum id (\<lambda>m. ()) (SPADEAutoencoderKL_init a) =
     (if aa_channels a \<noteq> [] \<and> aa_norm_num_groups a = 0 then Inl ZeroDivisionError
      else if not_all_multiples a then Inl (ValueError ChannelsNotMultiple)
      else if attention_length_differs a then Inl (ValueError AttentionLevelsLength)
      else if res_blocks_length_differs a then Inl (ValueError NumResBlocksLength)
      else if aa_channels a = [] then Inl IndexError
      else Inr ())"
proof -
  let ?d = "autoencoder_decoder_args a"
  have dec: "aa_channels a \<noteq> [] \<Longrightarrow> \<not> attention_length_differs a \<Longrightarrow>
      \<not> res_blocks_length_differs a \<Longrightarrow> \<exists>d. SPADEDecoder_init ?d = Inr d"
    using SPADEDecoder_init_succeeds[OF decoder_args_ok_equal_lengths[of ?d]]
    by (auto simp add: autoencoder_decoder_args_def attention_length_differs_def
        res_blocks_length_differs_def split: num_res_blocks_arg.splits)
  have emp: "aa_channels a = [] \<Longrightarrow> SPADEDecoder_init ?d = Inl IndexError"
    by (rule SPADEDecoder_init_empty) (simp add: autoencoder_decoder_args_def)
  show ?thesis
    using dec emp
    by (auto simp add: SPADEAutoencoderKL_init_def any_not_multiple_result
        not_all_multiples_def attention_length_differs_def res_blocks_length_differs_def
        ensure_tuple_rep_def Let_def autoencoder_decoder_args_def
        split: num_res_blocks_arg.splits)
qed

text \<open>
  C3 as the specification states it: construction fails exactly when one of the three
  validated conditions holds. With \<open>channels = ()\<close>, \<open>attention_levels = ()\<close> and
  \<open>num_res_blocks = 2\<close> none of the three holds, and construction fails all the same:
  \<open>SPADEDecoder.__init__\<close> reads \<open>reversed_block_out_channels[0]\<close> of an empty list.
\<close>

theorem SPADEAutoencoderKL_init_empty_channels:
  "SPADEAutoencoderKL_init empty_channels_args = Inl IndexError
   \<and> aa_channels empty_channels_args = []
   \<and> \<not> not_all_multiples empty_channels_args
   \<and> \<not> attention_length_differs empty_channels_args
   \<and> \<not> res_blocks_length_differs empty_channels_args"
  by (simp add: SPADEAutoencoderKL_init_def empty_channels_args_def example_args_def
      not_all_multiples_def attention_length_differs_def res_blocks_length_differs_def
      ensure_tuple_rep_def SPADEDecoder_init_def py_getitem_def)

text \<open>
  C3, amended: construction fails exactly in these cases, tried in this order, and always
  at construction time: \<open>norm_num_groups = 0\<close> with a non-empty channel schedule
  (\<open>ZeroDivisionError\<close>); some channel width is not a multiple of \<open>norm_num_groups\<close>
  (\<open>ValueError\<close>); \<open>len(channels) != len(attention_levels)\<close> (\<open>ValueError\<close>);
  \<open>num_res_blocks\<close> is a sequence whose length differs from \<open>len(channels)\<close>
  (\<open>ValueError\<close>); the channel schedule is empty (\<open>IndexError\<close>). A single integer
  \<open>num_res_blocks\<close> is broadcast to \<open>len(channels)\<close> and cannot fail the third check.
\<close>

theorem SPADEAutoencoderKL_init_failures:
  "map_sum id (\<lambda>m. ()) (SPADEAutoencoderKL_init a) =
     (if aa_channels a \<noteq> [] \<and> aa_norm_num_groups a = 0 then Inl ZeroDivisionError
      else if not_all_multiples a then Inl (ValueError ChannelsNotMultiple)
      else if attention_length_differs a then Inl (ValueError AttentionLevelsLength)
      else if res_blocks_length_differs a then Inl (ValueError NumResBlocksLength)
      else if aa_channels a = [] then Inl IndexError
      else Inr ())
   \<and> (aa_num_res_blocks a = SingleInt n \<longrightarrow> \<not> res_blocks_length_differs a)"
  by (simp add: SPADEAutoencoderKL_init_outcome res_blocks_length_differs_def)

text \<open>
  The scenario of the specification is constructed; \<open>channels = (32, 50)\<close> with 32
  groups, and \<open>num_res_blocks = (2, 2)\<close> with three levels, are refused.
\<close>

theorem SPADEAutoencoderKL_init_failures_example:
  "map_sum id (\<lambda>m. ()) (SPADEAutoencoderKL_init example_args) = Inr ()
   \<and> map_sum id (\<lambda>m. ())
        (SPADEAutoencoderKL_init (example_args \<lparr> aa_channels := [32, 50] \<rparr>))
       = Inl (ValueError ChannelsNotMultiple)
   \<and> map_sum id (\<lambda>m. ())
        (SPADEAutoencoderKL_init
           (example_args \<lparr> aa_channels := [32, 64, 64], aa_attention_levels := [False, False, False],
                           aa_num_res_blocks := PerLevel [2, 2] \<rparr>))
       = Inl (ValueError NumResBlocksLength)
   \<and> \<not> res_blocks_length_differs example_args"
  using SPADEAutoencoderKL_init_failures[of example_args 2]
    SPADEAutoencoderKL_init_failures[of "example_args \<lparr> aa_channels := [32, 50] \<rparr>" 2]
    SPADEAutoencoderKL_init_failures[of
      "example_args \<lparr> aa_channels := [32, 64, 64], aa_attention_levels := [False, False, False],
                           aa_num_res_blocks := PerLevel [2, 2] \<rparr>" 2]
  by (simp add: example_args_def not_all_multiples_def attention_length_differs_def
      res_blocks_length_differs_def)

section \<open>The forward pass of a residual block\<close>

lemma identity_layers_apply:
  "conv_apply identity_layers p c x = Inr x"
  "spade_apply identity_layers p n x seg = Inr x"
  "attention_apply identity_layers p sa x = Inr x"
  "upsample_apply identity_layers p u x = Inr x"
  "group_norm_apply identity_layers p gn x = Inr x"
  "encoder_apply identity_layers p e x = Inr x"
  by (simp_all add: identity_layers_def)

text \<open>
  C2: when the two normalisations and the two convolutions return, the forward pass of a
  block built by \<open>SPADEResBlock.__init__\<close> returns
  \<open>shortcut(x) + conv2(silu(norm2(conv1(silu(norm1(x, seg))), seg)))\<close>: \<open>h\<close> below is
  that second summand, \<open>F.silu\<close> is applied after each normalisation and before each
  convolution, and the shortcut is the identity when the input width equals the output
  width and a 1x1 stride-1 convolution from the one to the other otherwise. \<open>F.silu\<close>
  is the substrate's; on tensors of reals it is \<open>x * sigmoid(x)\<close>.
\<close>

theorem SPADEResBlock_forward_composition:
  assumes rb: "rb = SPADEResBlock_init sd ic g eps oc l hc"
    and n1: "spade_apply L (p @ [Attr ''norm1'']) (norm1 rb) x seg = Inr a1"
    and c1: "conv_apply L (p @ [Attr ''conv1'']) (conv1 rb) (F_silu T a1) = Inr a2"
    and n2: "spade_apply L (p @ [Attr ''norm2'']) (norm2 rb) a2 seg = Inr a3"
    and c2: "conv_apply L (p @ [Attr ''conv2'']) (conv2 rb) (F_silu T a3) = Inr h"
  shows "SPADEResBlock_forward T L p rb x seg =
           (if rb_in_channels rb = rb_out_channels rb then torch_add T x h
            else and_then
                   (conv_apply L (p @ [Attr ''nin_shortcut''])
                      (Convolution sd (rb_in_channels rb) (rb_out_channels rb) 1 1 0 True) x)
                   (\<lambda>sx. torch_add T sx h))
         \<and> rb_in_channels rb = ic
         \<and> rb_out_channels rb = (case oc of None \<Rightarrow> ic | Some c \<Rightarrow> c)"
  using n1 c1 n2 c2 unfolding rb
  by (simp add: SPADEResBlock_forward_def SPADEResBlock_init_def and_then_def Let_def)

text \<open>A block from 32 to 64 channels on a zero tensor, with layers that return their input.\<close>

theorem SPADEResBlock_forward_composition_example:
  "\<forall>bc p. SPADEResBlock_forward (real_torch bc) identity_layers p
       (SPADEResBlock_init 2 32 32 (1 / 1000000) (Some 64) 2 128)
       (Tensor [2] [0, 0]) (Tensor [2] [1, 1]) = Inr (Tensor [2] [0, 0])
     \<and> rb_in_channels (SPADEResBlock_init 2 32 32 (1 / 1000000) (Some 64) 2 128) = 32
     \<and> rb_out_channels (SPADEResBlock_init 2 32 32 (1 / 1000000) (Some 64) 2 128) = 64"
proof (intro allI)
  fix bc :: "(real \<Rightarrow> real \<Rightarrow> real) \<Rightarrow> tensor \<Rightarrow> tensor \<Rightarrow> error + tensor" and p :: path
  let ?rb = "SPADEResBlock_init 2 32 32 (1 / 1000000) (Some 64) 2 128"
  let ?z = "Tensor [2] [0, 0]"
  have s: "F_silu (real_torch bc) ?z = ?z" by (simp add: real_torch_def)
  have n1: "spade_apply identity_layers (p @ [Attr ''norm1'']) (norm1 ?rb) ?z (Tensor [2] [1, 1]) = Inr ?z"
    by (simp add: identity_layers_def)
  have c1: "conv_apply identity_layers (p @ [Attr ''conv1'']) (conv1 ?rb) (F_silu (real_torch bc) ?z) = Inr ?z"
    by (simp add: identity_layers_def s)
  have n2: "spade_apply identity_layers (p @ [Attr ''norm2'']) (norm2 ?rb) ?z (Tensor [2] [1, 1]) = Inr ?z"
    by (simp add: identity_layers_def)
  have c2: "conv_apply identity_layers (p @ [Attr ''conv2'']) (conv2 ?rb) (F_silu (real_torch bc) ?z) = Inr ?z"
    by (simp add: identity_layers_def s)
  have io: "rb_in_channels ?rb = 32" "rb_out_channels ?rb = 64"
    by (simp_all add: SPADEResBlock_init_def Let_def)
  show "SPADEResBlock_forward (real_torch bc) identity_layers p ?rb ?z (Tensor [2] [1, 1]) = Inr ?z
     \<and> rb_in_channels ?rb = 32 \<and> rb_out_channels ?rb = 64"
    using SPADEResBlock_forward_composition[OF refl n1 c1 n2 c2] io
    by (simp add: and_then_def identity_layers_def real_torch_def elementwise_def)
qed

section \<open>The forward pass of the decoder\<close>

lemma run_blocks_calls:
  "case run_blocks T L p i bs x seg of
     (res, calls) \<Rightarrow>
        map call_module calls = take (length calls) bs
      \<and> (\<forall>c \<in> set calls.
            call_seg c = (if isinstance_SPADEResBlock (call_module c) then Some seg else None))
      \<and> (\<forall>y. res = Inr y \<longrightarrow> length calls = length bs)
      \<and> (\<forall>e. res = Inl e \<longrightarrow> calls \<noteq> [])
      \<and> (calls \<noteq> [] \<longrightarrow> call_x (hd calls) = x)
      \<and> (calls = [] \<longrightarrow> res = Inr x)
      \<and> (\<forall>k < length calls.
            module_call T L (p @ [Item (i + k)]) (call_module (calls ! k)) (call_x (calls ! k))
              (call_seg (calls ! k))
            = (if Suc k < length calls then Inr (call_x (calls ! Suc k)) else res))"
proof (induction bs arbitrary: i x)
  case Nil
  then show ?case by simp
next
  case (Cons b bs)
  let ?arg = "if isinstance_SPADEResBlock b then Some seg else None"
  show ?case
  proof (cases "module_call T L (p @ [Item i]) b x ?arg")
    case (Inl e)
    then show ?thesis by (simp add: Let_def)
  next
    case (Inr x1)
    obtain res calls where r: "run_blocks T L p (Suc i) bs x1 seg = (res, calls)"
      by (cases "run_blocks T L p (Suc i) bs x1 seg")
    have ih: "map call_module calls = take (length calls) bs
      \<and> (\<forall>c \<in> set calls.
            call_seg c = (if isinstance_SPADEResBlock (call_module c) then Some seg else None))
      \<and> (\<forall>y. res = Inr y \<longrightarrow> length calls = length bs)
      \<and> (\<forall>e. res = Inl e \<longrightarrow> calls \<noteq> [])
      \<and> (calls \<noteq> [] \<longrightarrow> call_x (hd calls) = x1)
      \<and> (calls = [] \<longrightarrow> res = Inr x1)
      \<and> (\<forall>k < length calls.
            module_call T L (p @ [Item (Suc i + k)]) (call_module (calls ! k)) (call_x (calls ! k))
              (call_seg (calls ! k))
            = (if Suc k < length calls then Inr (call_x (calls ! Suc k)) else res))"
      using Cons.IH[where i="Suc i" and x=x1] unfolding r prod.case .
    have chain: "module_call T L (p @ [Item (i + k)]) (call_module ((Call b x ?arg # calls) ! k))
              (call_x ((Call b x ?arg # calls) ! k)) (call_seg ((Call b x ?arg # calls) ! k))
            = (if Suc k < length (Call b x ?arg # calls)
               then Inr (call_x ((Call b x ?arg # calls) ! Suc k)) else res)"
      if k: "k < length (Call b x ?arg # calls)" for k
    proof (cases k)
      case 0
      show ?thesis
      proof (cases calls)
        case Nil
        then show ?thesis using 0 Inr ih by simp
      next
        case (Cons c cs)
        then show ?thesis using 0 Inr ih by simp
      qed
    next
      case (Suc j)
      then have j: "j < length calls" using k by simp
      have "module_call T L (p @ [Item (Suc i + j)]) (call_module (calls ! j))
              (call_x (calls ! j)) (call_seg (calls ! j))
            = (if Suc j < length calls then Inr (call_x (calls ! Suc j)) else res)"
        using ih j by blast
      then show ?thesis using Suc by simp
    qed
    have rest: "map call_module (Call b x ?arg # calls) = take (length (Call b x ?arg # calls)) (b # bs)
      \<and> (\<forall>c \<in> set (Call b x ?arg # calls).
            call_seg c = (if isinstance_SPADEResBlock (call_module c) then Some seg else None))
      \<and> (\<forall>y. res = Inr y \<longrightarrow> length (Call b x ?arg # calls) = length (b # bs))
      \<and> call_x (hd (Call b x ?arg # calls)) = x"
      using ih by simp
    show ?thesis
      using rest chain by (simp add: Inr r Let_def del: nth_Cons_Suc)
  qed
qed

text \<open>
  C7: the calls \<open>SPADEDecoder.forward\<close> makes are calls of the blocks in their order,
  each on the result of the call before it (the first on \<open>x\<close>), and the result of the
  last call is what the pass returns; a call carries the segmentation tensor as second
  argument if and only if its module is a \<open>SPADEResBlock\<close>, every other module is called
  with \<open>x\<close> alone. A pass that returns has called every block; a pass that raises has
  stopped at the block that raised.
\<close>

theorem SPADEDecoder_forward_dispatch:
  "case SPADEDecoder_forward T L p self x seg of
     (res, calls) \<Rightarrow>
        map call_module calls = take (length calls) (blocks self)
      \<and> (\<forall>c \<in> set calls.
            call_seg c = (if isinstance_SPADEResBlock (call_module c) then Some seg else None))
      \<and> (\<forall>y. res = Inr y \<longrightarrow> map call_module calls = blocks self)
      \<and> (\<forall>e. res = Inl e \<longrightarrow> calls \<noteq> [])
      \<and> (calls \<noteq> [] \<longrightarrow> call_x (hd calls) = x)
      \<and> (calls = [] \<longrightarrow> res = Inr x)
      \<and> (\<forall>k < length calls.
            module_call T L (p @ [Attr ''blocks'', Item k]) (call_module (calls ! k))
              (call_x (calls ! k)) (call_seg (calls ! k))
            = (if Suc k < length calls then Inr (call_x (calls ! Suc k)) else res))"
proof -
  obtain res calls where r:
    "run_blocks T L (p @ [Attr ''blocks'']) 0 (blocks self) x seg = (res, calls)"
    by (cases "run_blocks T L (p @ [Attr ''blocks'']) 0 (blocks self) x seg")
  have f: "map call_module calls = take (length calls) (blocks self)
      \<and> (\<forall>c \<in> set calls.
            call_seg c = (if isinstance_SPADEResBlock (call_module c) then Some seg else None))
      \<and> (\<forall>y. res = Inr y \<longrightarrow> length calls = length (blocks self))
      \<and> (\<forall>e. res = Inl e \<longrightarrow> calls \<noteq> [])
      \<and> (calls \<noteq> [] \<longrightarrow> call_x (hd calls) = x)
      \<and> (calls = [] \<longrightarrow> res = Inr x)
      \<and> (\<forall>k < length calls.
            module_call T L ((p @ [Attr ''blocks'']) @ [Item (0 + k)]) (call_module (calls ! k))
              (call_x (calls ! k)) (call_seg (calls ! k))
            = (if Suc k < length calls then Inr (call_x (calls ! Suc k)) else res))"
    using run_blocks_calls[where T=T and L=L and p="p @ [Attr ''blocks'']" and i=0
      and bs="blocks self" and x=x and seg=seg]
    unfolding r prod.case .
  have all: "\<forall>y. res = Inr y \<longrightarrow> map call_module calls = blocks self"
  proof (intro allI impI)
    fix y assume "res = Inr y"
    then have "length calls = length (blocks self)" using f by blast
    then show "map call_module calls = blocks self" using f by simp
  qed
  have chain: "\<forall>k < length calls.
            module_call T L (p @ [Attr ''blocks'', Item k]) (call_module (calls ! k))
              (call_x (calls ! k)) (call_seg (calls ! k))
            = (if Suc k < length calls then Inr (call_x (calls ! Suc k)) else res)"
  proof (intro allI impI)
    fix k assume "k < length calls"
    then have "module_call T L ((p @ [Attr ''blocks'']) @ [Item (0 + k)]) (call_module (calls ! k))
              (call_x (calls ! k)) (call_seg (calls ! k))
            = (if Suc k < length calls then Inr (call_x (calls ! Suc k)) else res)"
      using f by blast
    then show "module_call T L (p @ [Attr ''blocks'', Item k]) (call_module (calls ! k))
              (call_x (calls ! k)) (call_seg (calls ! k))
            = (if Suc k < length calls then Inr (call_x (calls ! Suc k)) else res)"
      by simp
  qed
  have "map call_module calls = take (length calls) (blocks self)
      \<and> (\<forall>c \<in> set calls.
            call_seg c = (if isinstance_SPADEResBlock (call_module c) then Some seg else None))
      \<and> (\<forall>y. res = Inr y \<longrightarrow> map call_module calls = blocks self)
      \<and> (\<forall>e. res = Inl e \<longrightarrow> calls \<noteq> [])
      \<and> (calls \<noteq> [] \<longrightarrow> call_x (hd calls) = x)
      \<and> (calls = [] \<longrightarrow> res = Inr x)
      \<and> (\<forall>k < length calls.
            module_call T L (p @ [Attr ''blocks'', Item k]) (call_module (calls ! k))
              (call_x (calls ! k)) (call_seg (calls ! k))
            = (if Suc k < length calls then Inr (call_x (calls ! Suc k)) else res))"
    using f all chain by blast
  then show ?thesis
    unfolding SPADEDecoder_forward_def r prod.case .
qed

lemma SPADEDecoder_init_small:
  "blocks (projr (SPADEDecoder_init small_decoder_args)) =
     [ConvM (conv3x3 small_decoder_args 3 32),
      res_block small_decoder_args 32 32,
      attn_block small_decoder_args 32,
      NormM (GroupNorm 32 32 (1 / 1000000) True),
      ConvM (conv3x3 small_decoder_args 32 1)]"
proof -
  have "decoder_args_ok small_decoder_args"
    by (simp add: decoder_args_ok_def level_ok_def small_decoder_args_def)
  then obtain d where d: "SPADEDecoder_init small_decoder_args = Inr d"
      "blocks d = spec_decoder_blocks small_decoder_args"
    using SPADEDecoder_init_succeeds by blast
  have "spec_decoder_blocks small_decoder_args =
     [ConvM (conv3x3 small_decoder_args 3 32),
      res_block small_decoder_args 32 32,
      attn_block small_decoder_args 32,
      NormM (GroupNorm 32 32 (1 / 1000000) True),
      ConvM (conv3x3 small_decoder_args 32 1)]"
    by (simp add: spec_decoder_blocks_def spec_level_blocks_def spec_level_width_def
        spec_level_count_def spec_prev_width_def conv3x3_def Let_def
        small_decoder_args_def)
  then show ?thesis using d by simp
qed

lemma SPADEResBlock_forward_zero:
  "SPADEResBlock_forward (real_torch bc) identity_layers p (SPADEResBlock_init sd ic g eps oc l hc)
     (Tensor [2] [0, 0]) seg = Inr (Tensor [2] [0, 0])"
  by (simp add: SPADEResBlock_forward_def SPADEResBlock_init_def and_then_def Let_def
      identity_layers_def real_torch_def elementwise_def split: option.splits)

text \<open>
  The one-level decoder on a zero tensor: five calls, of which only the residual block
  receives the segmentation tensor.
\<close>

theorem SPADEDecoder_forward_dispatch_small:
  "\<forall>bc p. SPADEDecoder_forward (real_torch bc) identity_layers p
      (projr (SPADEDecoder_init small_decoder_args)) (Tensor [2] [0, 0]) (Tensor [2] [1, 1]) =
     (Inr (Tensor [2] [0, 0]),
      [Call (ConvM (conv3x3 small_decoder_args 3 32)) (Tensor [2] [0, 0]) None,
       Call (res_block small_decoder_args 32 32) (Tensor [2] [0, 0]) (Some (Tensor [2] [1, 1])),
       Call (attn_block small_decoder_args 32) (Tensor [2] [0, 0]) None,
       Call (NormM (GroupNorm 32 32 (1 / 1000000) True)) (Tensor [2] [0, 0]) None,
       Call (ConvM (conv3x3 small_decoder_args 32 1)) (Tensor [2] [0, 0]) None])"
proof (intro allI)
  fix bc p
  have run: "SPADEDecoder_forward (real_torch bc) identity_layers p
      (projr (SPADEDecoder_init small_decoder_args)) (Tensor [2] [0, 0]) (Tensor [2] [1, 1]) =
     (Inr (Tensor [2] [0, 0]),
      [Call (ConvM (conv3x3 small_decoder_args 3 32)) (Tensor [2] [0, 0]) None,
       Call (res_block small_decoder_args 32 32) (Tensor [2] [0, 0]) (Some (Tensor [2] [1, 1])),
       Call (attn_block small_decoder_args 32) (Tensor [2] [0, 0]) None,
       Call (NormM (GroupNorm 32 32 (1 / 1000000) True)) (Tensor [2] [0, 0]) None,
       Call (ConvM (conv3x3 small_decoder_args 32 1)) (Tensor [2] [0, 0]) None])"
    by (simp add: SPADEDecoder_forward_def SPADEDecoder_init_small res_block_def attn_block_def
        SPADEResBlock_forward_zero identity_layers_apply Let_def)
  show "SPADEDecoder_forward (real_torch bc) identity_layers p
      (projr (SPADEDecoder_init small_decoder_args)) (Tensor [2] [0, 0]) (Tensor [2] [1, 1]) =
     (Inr (Tensor [2] [0, 0]),
      [Call (ConvM (conv3x3 small_decoder_args 3 32)) (Tensor [2] [0, 0]) None,
       Call (res_block small_decoder_args 32 32) (Tensor [2] [0, 0]) (Some (Tensor [2] [1, 1])),
       Call (attn_block small_decoder_args 32) (Tensor [2] [0, 0]) None,
       Call (NormM (GroupNorm 32 32 (1 / 1000000) True)) (Tensor [2] [0, 0]) None,
       Call (ConvM (conv3x3 small_decoder_args 32 1)) (Tensor [2] [0, 0]) None])"
    using SPADEDecoder_forward_dispatch[where T="real_torch bc" and L=identity_layers and p=p
        and self="projr (SPADEDecoder_init small_decoder_args)" and x="Tensor [2] [0, 0]"
        and seg="Tensor [2] [1, 1]"]
      run
    by simp
qed

section \<open>Encoding\<close>



section \<open>Sampling\<close>

lemma map2_noise:
  assumes "length xs = n" "length ys = n"
  shows "map2 (+) xs (map2 (*) (map rng [0 ..< n]) ys) =
         map (\<lambda>i. xs ! i + rng i * ys ! i) [0 ..< n]"
  using assms by (intro nth_equalityI) simp_all

text \<open>
  C5: for a mean and a sigma of the same shape, \<open>sampling\<close> returns
  \<open>mean + noise * sigma\<close> element by element, the noise being the next numbers the
  generator draws, as many as \<open>sigma\<close> has elements; when every element of \<open>sigma\<close> is
  zero the result is the mean itself, whatever the noise.
\<close>

theorem sampling_zero_sigma:
  assumes sh: "shape z_mu = shape z_sigma"
    and wf: "wf_tensor z_mu" "wf_tensor z_sigma"
  shows "sampling (real_torch bc) z_mu z_sigma rng =
           (Inr (Tensor (shape z_mu)
                   (map (\<lambda>i. data z_mu ! i + rng i * data z_sigma ! i)
                      [0 ..< length (data z_mu)])),
            \<lambda>i. rng (i + length (data z_sigma)))
         \<and> ((\<forall>s \<in> set (data z_sigma). s = 0) \<longrightarrow>
              fst (sampling (real_torch bc) z_mu z_sigma rng) = Inr z_mu)"
proof -
  have n: "length (data z_mu) = prod_list (shape z_sigma)"
      "length (data z_sigma) = prod_list (shape z_sigma)"
    using sh wf by (simp_all add: wf_tensor_def)
  have s: "sampling (real_torch bc) z_mu z_sigma rng =
           (Inr (Tensor (shape z_mu)
                   (map (\<lambda>i. data z_mu ! i + rng i * data z_sigma ! i)
                      [0 ..< length (data z_mu)])),
            \<lambda>i. rng (i + length (data z_sigma)))"
    using sh map2_noise[OF n, of rng]
    by (simp add: sampling_def real_torch_def elementwise_def and_then_def n)
  have z: "map (\<lambda>i. data z_mu ! i + rng i * data z_sigma ! i) [0 ..< length (data z_mu)]
           = data z_mu" if "\<forall>s \<in> set (data z_sigma). s = 0"
  proof (intro nth_equalityI)
    show "length (map (\<lambda>i. data z_mu ! i + rng i * data z_sigma ! i) [0 ..< length (data z_mu)])
          = length (data z_mu)" by simp
  next
    fix i assume "i < length (map (\<lambda>i. data z_mu ! i + rng i * data z_sigma ! i)
                                 [0 ..< length (data z_mu)])"
    then have i: "i < length (data z_sigma)" using n by simp
    then have "data z_sigma ! i = 0" using that nth_mem by blast
    then show "map (\<lambda>i. data z_mu ! i + rng i * data z_sigma ! i) [0 ..< length (data z_mu)] ! i
               = data z_mu ! i"
      using i n by simp
  qed
  show ?thesis
    unfolding s using z by (cases z_mu) auto
qed

theorem sampling_zero_sigma_example:
  "\<forall>bc rng. fst (sampling (real_torch bc) (Tensor [2, 2] [5, - 3, 0, 7]) (Tensor [2, 2] [0, 0, 0, 0]) rng)
       = Inr (Tensor [2, 2] [5, - 3, 0, 7])"
  using sampling_zero_sigma[where z_mu="Tensor [2, 2] [5, - 3, 0, 7]"
      and z_sigma="Tensor [2, 2] [0, 0, 0, 0]"]
  by (simp add: wf_tensor_def)

section \<open>Reconstruction\<close>

text \<open>
  C6: \<open>reconstruct(x, seg)\<close> is \<open>decode\<close> applied to the mean that \<open>encode(x)\<close> returns
  and to \<open>seg\<close> (or the error of \<open>encode\<close>); it leaves the state of the random generator
  as it found it, and its result does not depend on that state.
\<close>

theorem reconstruct_uses_mean_only:
  "reconstruct T L m x seg rng =
     (case fst (encode T L m x rng) of
        Inl e \<Rightarrow> (Inl e, rng)
      | Inr (z_mu, z_sigma) \<Rightarrow> decode T L m z_mu seg rng)
   \<and> snd (reconstruct T L m x seg rng) = rng
   \<and> fst (reconstruct T L m x seg rng) = fst (reconstruct T L m x seg rng')"
  by (auto simp add: reconstruct_def encode_def decode_def split: sum.splits prod.splits)

theorem reconstruct_uses_mean_only_example:
  "\<forall>bc rng rng'.
     snd (reconstruct (real_torch bc) identity_layers
            (projr (SPADEAutoencoderKL_init example_args)) (Tensor [2] [0, 0]) (Tensor [2] [1, 1])
            rng) = rng
     \<and> fst (reconstruct (real_torch bc) identity_layers
            (projr (SPADEAutoencoderKL_init example_args)) (Tensor [2] [0, 0]) (Tensor [2] [1, 1])
            rng)
       = fst (reconstruct (real_torch bc) identity_layers
            (projr (SPADEAutoencoderKL_init example_args)) (Tensor [2] [0, 0]) (Tensor [2] [1, 1])
            rng')"
proof (intro allI)
  fix bc :: "(real \<Rightarrow> real \<Rightarrow> real) \<Rightarrow> tensor \<Rightarrow> tensor \<Rightarrow> error + tensor"
    and rng rng' :: "nat \<Rightarrow> real"
  show "snd (reconstruct (real_torch bc) identity_layers
            (projr (SPADEAutoencoderKL_init example_args)) (Tensor [2] [0, 0]) (Tensor [2] [1, 1])
            rng) = rng
     \<and> fst (reconstruct (real_torch bc) identity_layers
            (projr (SPADEAutoencoderKL_init example_args)) (Tensor [2] [0, 0]) (Tensor [2] [1, 1])
            rng)
       = fst (reconstruct (real_torch bc) identity_layers
            (projr (SPADEAutoencoderKL_init example_args)) (Tensor [2] [0, 0]) (Tensor [2] [1, 1])
            rng')"
    using reconstruct_uses_mean_only[where T="real_torch bc" and L=identity_layers
      and m="projr (SPADEAutoencoderKL_init example_args)" and x="Tensor [2] [0, 0]"
      and seg="Tensor [2] [1, 1]" and rng=rng and rng'=rng']
    by (elim conjE) (intro conjI; assumption)
qed

section \<open>Shapes through the decoder\<close>

lemma broadcast_rev_same: "broadcast_rev s s = Inr s"
  by (induction s) (simp_all add: and_then_def)

lemma broadcast_shapes_same: "broadcast_shapes s s = Inr s"
  by (simp add: broadcast_shapes_def broadcast_rev_same and_then_def)

lemma shape_layers_apply:
  "conv_apply (shape_layers E) p = conv_shape"
  "spade_apply (shape_layers E) p = spade_shape"
  "attention_apply (shape_layers E) p = attention_shape"
  "upsample_apply (shape_layers E) p = upsample_shape"
  "group_norm_apply (shape_layers E) p = group_norm_shape"
  "encoder_apply (shape_layers E) p = E"
  by (simp_all add: shape_layers_def)

lemma shape_torch_apply:
  "F_silu shape_torch s = s"
  "torch_add shape_torch = broadcast_shapes"
  "torch_mul shape_torch = broadcast_shapes"
  "torch_clamp shape_torch s lo hi = s"
  "torch_div shape_torch s c = s"
  "torch_exp shape_torch s = s"
  "torch_randn_like shape_torch s rng = (s, rng)"
  by (simp_all add: shape_torch_def)

lemma conv_shape_same_size:
  assumes "spatial_ok sd sp" "0 \<le> cin" "0 \<le> cout"
  shows "conv_shape (Convolution sd cin cout 1 3 1 True) (b # nat cin # sp) = Inr (b # nat cout # sp)"
    and "conv_shape (Convolution sd cin cout 1 1 0 True) (b # nat cin # sp) = Inr (b # nat cout # sp)"
proof -
  have a: "list_all (\<lambda>n. 3 \<le> int n + 2) sp" "list_all (\<lambda>n. 1 \<le> int n) sp"
    using assms(1) by (auto simp add: spatial_ok_def list_all_iff)
  have m: "map (\<lambda>n. nat (int n + 2 - 3 + 1)) sp = sp" "map (\<lambda>n. nat (int n - 1 + 1)) sp = sp"
    by (simp_all add: map_idI)
  show "conv_shape (Convolution sd cin cout 1 3 1 True) (b # nat cin # sp) = Inr (b # nat cout # sp)"
    using assms a m by (simp add: conv_shape_def spatial_ok_def)
  show "conv_shape (Convolution sd cin cout 1 1 0 True) (b # nat cin # sp) = Inr (b # nat cout # sp)"
    using assms a m by (simp add: conv_shape_def spatial_ok_def)
qed

lemma spatial_ok_double: "spatial_ok sd sp \<Longrightarrow> spatial_ok sd (map (\<lambda>n. 2 * n) sp)"
  by (auto simp add: spatial_ok_def list_all_iff)

lemma res_block_shape:
  assumes sp: "spatial_ok (da_spatial_dims a) sp" and c: "0 \<le> cin" "0 \<le> cout"
    and seg: "seg_ok a b seg"
  shows "module_call shape_torch (shape_layers E) p (res_block a cin cout) (b # nat cin # sp) (Some seg)
         = Inr (b # nat cout # sp)"
proof -
  obtain ssp where s: "seg = b # nat (da_label_nc a) # ssp" "int (length ssp) = da_spatial_dims a"
      "0 \<le> da_label_nc a"
    using seg by (auto simp add: seg_ok_def)
  have len: "length ssp = length sp" using s(2) sp by (simp add: spatial_ok_def)
  have sd: "int (length sp) = da_spatial_dims a" using sp by (simp add: spatial_ok_def)
  have n1: "spade_shape (SPADE (da_label_nc a) (Some cin) ''GROUP''
               (NormParams (da_norm_num_groups a) False (da_norm_eps a))
               (da_spade_intermediate_channels a) 3 (da_spatial_dims a)) (b # nat cin # sp) seg
            = Inr (b # nat cin # sp)"
    using c s len sd by (simp add: spade_shape_def)
  have n2: "spade_shape (SPADE (da_label_nc a) (Some cout) ''GROUP''
               (NormParams (da_norm_num_groups a) False (da_norm_eps a))
               (da_spade_intermediate_channels a) 3 (da_spatial_dims a)) (b # nat cout # sp) seg
            = Inr (b # nat cout # sp)"
    using c s len sd by (simp add: spade_shape_def)
  have eq: "cin = cout \<Longrightarrow> nat cin = nat cout" by simp
  show ?thesis
    using n1 n2 conv_shape_same_size[OF sp c] conv_shape_same_size[OF sp c(2) c(2)] eq
    by (simp add: res_block_def SPADEResBlock_forward_def SPADEResBlock_init_def Let_def
        shape_layers_apply shape_torch_apply and_then_def broadcast_shapes_same)
qed

lemma attn_block_shape:
  assumes "spatial_ok (da_spatial_dims a) sp" "0 \<le> ch"
  shows "module_call shape_torch (shape_layers E) p (attn_block a ch) (b # nat ch # sp) None
         = Inr (b # nat ch # sp)"
  using assms by (simp add: attn_block_def attention_shape_def shape_layers_apply spatial_ok_def)

lemma double_floor: "map (\<lambda>n. nat \<lfloor>real n * 2\<rfloor>) sp = map (\<lambda>n. 2 * n) sp"
proof -
  have "nat \<lfloor>real n * 2\<rfloor> = 2 * n" for n
  proof -
    have "real n * 2 = of_int (int (2 * n))" by simp
    then have "\<lfloor>real n * 2\<rfloor> = int (2 * n)" by (simp only: floor_of_int)
    then show ?thesis by simp
  qed
  then show ?thesis by simp
qed

lemma upsample_stage_shape:
  assumes sp: "spatial_ok (da_spatial_dims a) sp" and c: "0 \<le> ch"
  shows "module_call shape_torch (shape_layers E) p (upsample_stage a ch) (b # nat ch # sp) None
         = Inr (b # nat ch # map (\<lambda>n. 2 * n) sp)"
  using conv_shape_same_size(1)[OF spatial_ok_double[OF sp] c c, of b] sp c
  by (simp add: upsample_stage_def upsample_shape_def shape_layers_apply conv3x3_def Let_def
      double_floor spatial_ok_def)

lemma run_blocks_fst_Cons:
  "fst (run_blocks T L p i (m # bs) x seg) =
     and_then (module_call T L (p @ [Item i]) m x
                 (if isinstance_SPADEResBlock m then Some seg else None))
       (\<lambda>y. fst (run_blocks T L p (Suc i) bs y seg))"
  by (simp add: and_then_def Let_def split: sum.splits prod.splits)

lemma run_blocks_fst_append:
  "fst (run_blocks T L p i (bs1 @ bs2) x seg) =
     and_then (fst (run_blocks T L p i bs1 x seg))
       (\<lambda>y. fst (run_blocks T L p (i + length bs1) bs2 y seg))"
proof (induction bs1 arbitrary: i x)
  case Nil
  then show ?case by (simp add: and_then_def)
next
  case (Cons m bs1)
  show ?case
    unfolding append_Cons run_blocks_fst_Cons Cons.IH
    by (simp add: and_then_def split: sum.splits)
qed

lemma takes_shape_Nil: "takes_shape E seg [] x x"
  by (simp add: takes_shape_def)

lemma takes_shape_append:
  assumes "takes_shape E seg bs1 x y" "takes_shape E seg bs2 y z"
  shows "takes_shape E seg (bs1 @ bs2) x z"
  using assms by (simp add: takes_shape_def run_blocks_fst_append and_then_def)

lemma takes_shape_single:
  assumes "\<And>p. module_call (shape_torch :: (nat list, unit) torch) (shape_layers E) p m x
                   (if isinstance_SPADEResBlock m then Some seg else None) = Inr y"
  shows "takes_shape E seg [m] x y"
  using assms by (simp add: takes_shape_def run_blocks_fst_Cons and_then_def)

lemma takes_shape_res_block:
  assumes "spatial_ok (da_spatial_dims a) sp" "0 \<le> cin" "0 \<le> cout" "seg_ok a b seg"
  shows "takes_shape E seg [res_block a cin cout] (b # nat cin # sp) (b # nat cout # sp)"
proof (rule takes_shape_single)
  fix p
  have "isinstance_SPADEResBlock (res_block a cin cout)" by (simp add: res_block_def)
  then show "module_call (shape_torch :: (nat list, unit) torch) (shape_layers E) p
          (res_block a cin cout) (b # nat cin # sp)
          (if isinstance_SPADEResBlock (res_block a cin cout) then Some seg else None)
        = Inr (b # nat cout # sp)"
    using res_block_shape[OF assms] by simp
qed

lemma takes_shape_attn_block:
  assumes "spatial_ok (da_spatial_dims a) sp" "0 \<le> ch"
  shows "takes_shape E seg [attn_block a ch] (b # nat ch # sp) (b # nat ch # sp)"
proof (rule takes_shape_single)
  fix p
  have "\<not> isinstance_SPADEResBlock (attn_block a ch)" by (simp add: attn_block_def)
  then show "module_call (shape_torch :: (nat list, unit) torch) (shape_layers E) p
          (attn_block a ch) (b # nat ch # sp)
          (if isinstance_SPADEResBlock (attn_block a ch) then Some seg else None)
        = Inr (b # nat ch # sp)"
    using attn_block_shape[OF assms] by simp
qed

lemma takes_shape_upsample_stage:
  assumes "spatial_ok (da_spatial_dims a) sp" "0 \<le> ch"
  shows "takes_shape E seg [upsample_stage a ch] (b # nat ch # sp)
           (b # nat ch # map (\<lambda>n. 2 * n) sp)"
proof (rule takes_shape_single)
  fix p
  have "\<not> isinstance_SPADEResBlock (upsample_stage a ch)" by (simp add: upsample_stage_def Let_def)
  then show "module_call (shape_torch :: (nat list, unit) torch) (shape_layers E) p
          (upsample_stage a ch) (b # nat ch # sp)
          (if isinstance_SPADEResBlock (upsample_stage a ch) then Some seg else None)
        = Inr (b # nat ch # map (\<lambda>n. 2 * n) sp)"
    using upsample_stage_shape[OF assms] by simp
qed

lemma takes_shape_conv3x3:
  assumes "spatial_ok (da_spatial_dims a) sp" "0 \<le> cin" "0 \<le> cout"
  shows "takes_shape E seg [ConvM (conv3x3 a cin cout)] (b # nat cin # sp) (b # nat cout # sp)"
proof (rule takes_shape_single)
  fix p
  show "module_call (shape_torch :: (nat list, unit) torch) (shape_layers E) p
          (ConvM (conv3x3 a cin cout)) (b # nat cin # sp)
          (if isinstance_SPADEResBlock (ConvM (conv3x3 a cin cout)) then Some seg else None)
        = Inr (b # nat cout # sp)"
    using conv_shape_same_size(1)[OF assms]
    by (simp add: conv3x3_def shape_layers_apply)
qed

lemma takes_shape_group_norm:
  assumes "0 \<le> ch"
  shows "takes_shape E seg [NormM (GroupNorm g ch eps True)] (b # nat ch # sp) (b # nat ch # sp)"
proof (rule takes_shape_single)
  fix p
  show "module_call (shape_torch :: (nat list, unit) torch) (shape_layers E) p
          (NormM (GroupNorm g ch eps True)) (b # nat ch # sp)
          (if isinstance_SPADEResBlock (NormM (GroupNorm g ch eps True)) then Some seg else None)
        = Inr (b # nat ch # sp)"
    using assms by (simp add: group_norm_shape_def shape_layers_apply)
qed

lemma takes_shape_unit:
  assumes sp: "spatial_ok (da_spatial_dims a) sp" and c: "0 \<le> cin" "0 \<le> w"
    and seg: "seg_ok a b seg"
  shows "takes_shape E seg (res_block a cin w # (if flag then [attn_block a w] else []))
           (b # nat cin # sp) (b # nat w # sp)"
proof -
  have r: "takes_shape E seg [res_block a cin w] (b # nat cin # sp) (b # nat w # sp)"
    by (rule takes_shape_res_block[OF sp c seg])
  have t: "takes_shape E seg (if flag then [attn_block a w] else []) (b # nat w # sp) (b # nat w # sp)"
    using takes_shape_attn_block[OF sp c(2)] takes_shape_Nil by simp
  show ?thesis using takes_shape_append[OF r t] by simp
qed

lemma takes_shape_replicate:
  assumes "takes_shape E seg bs x x"
  shows "takes_shape E seg (concat (replicate k bs)) x x"
proof (induction k)
  case 0
  then show ?case by (simp add: takes_shape_Nil)
next
  case (Suc k)
  then show ?case using takes_shape_append[OF assms] by simp
qed

lemma takes_shape_level:
  assumes n: "spec_level_count a i \<noteq> 0"
    and w: "0 \<le> rev (da_channels a) ! i" "0 \<le> spec_prev_width a i"
    and sp: "spatial_ok (da_spatial_dims a) sp" and seg: "seg_ok a b seg"
  shows "takes_shape E seg (spec_level_blocks a i)
           (b # nat (spec_prev_width a i) # sp)
           (b # nat (rev (da_channels a) ! i)
              # (if i \<noteq> length (da_channels a) - 1 then map (\<lambda>n. 2 * n) sp else sp))"
proof -
  let ?w = "rev (da_channels a) ! i"
  let ?att = "if rev (da_attention_levels a) ! i then [attn_block a ?w] else []"
  have first: "takes_shape E seg (res_block a (spec_prev_width a i) ?w # ?att)
      (b # nat (spec_prev_width a i) # sp) (b # nat ?w # sp)"
    by (rule takes_shape_unit[OF sp w(2) w(1) seg])
  have more: "takes_shape E seg
      (concat (replicate (spec_level_count a i - 1) (res_block a ?w ?w # ?att)))
      (b # nat ?w # sp) (b # nat ?w # sp)"
    by (rule takes_shape_replicate[OF takes_shape_unit[OF sp w(1) w(1) seg]])
  have up: "takes_shape E seg
      (if i \<noteq> length (da_channels a) - 1 then [upsample_stage a ?w] else [])
      (b # nat ?w # sp)
      (b # nat ?w # (if i \<noteq> length (da_channels a) - 1 then map (\<lambda>n. 2 * n) sp else sp))"
    using takes_shape_upsample_stage[OF sp w(1)] takes_shape_Nil by simp
  have all: "takes_shape E seg
      (((res_block a (spec_prev_width a i) ?w # ?att)
        @ concat (replicate (spec_level_count a i - 1) (res_block a ?w ?w # ?att)))
       @ (if i \<noteq> length (da_channels a) - 1 then [upsample_stage a ?w] else []))
      (b # nat (spec_prev_width a i) # sp)
      (b # nat ?w # (if i \<noteq> length (da_channels a) - 1 then map (\<lambda>n. 2 * n) sp else sp))"
    by (rule takes_shape_append[OF takes_shape_append[OF first more] up])
  have eq: "spec_level_blocks a i =
      ((res_block a (spec_prev_width a i) ?w # ?att)
        @ concat (replicate (spec_level_count a i - 1) (res_block a ?w ?w # ?att)))
       @ (if i \<noteq> length (da_channels a) - 1 then [upsample_stage a ?w] else [])"
    using n by (simp add: spec_level_blocks_def spec_level_width_def Let_def)
  show ?thesis unfolding eq by (rule all)
qed

lemma schedule_ok_level:
  assumes "schedule_ok a" "i < length (da_channels a)"
  shows "spec_level_count a i \<noteq> 0" "0 \<le> rev (da_channels a) ! i" "0 \<le> spec_prev_width a i"
    "spec_level_width a i = rev (da_channels a) ! i"
proof -
  have c: "\<forall>j < length (da_channels a). 0 \<le> rev (da_channels a) ! j"
    using assms(1) by (simp add: schedule_ok_def list_all_iff rev_nth)
  have n: "1 \<le> rev (da_num_res_blocks a) ! i"
    using assms by (simp add: schedule_ok_def list_all_iff rev_nth)
  show "spec_level_count a i \<noteq> 0" using n by (simp add: spec_level_count_def)
  then show "spec_level_width a i = rev (da_channels a) ! i" by (simp add: spec_level_width_def)
  show "0 \<le> rev (da_channels a) ! i" using c assms(2) by simp
  show "0 \<le> spec_prev_width a i" using c assms(2) by (auto simp add: spec_prev_width_def)
qed

lemma takes_shape_levels:
  assumes ok: "schedule_ok a" and seg: "seg_ok a b seg"
  shows "m < length (da_channels a) \<Longrightarrow> spatial_ok (da_spatial_dims a) sp \<Longrightarrow>
         takes_shape E seg (concat (map (spec_level_blocks a) [m ..< length (da_channels a)]))
           (b # nat (spec_prev_width a m) # sp)
           (b # nat (rev (da_channels a) ! (length (da_channels a) - 1))
              # map (\<lambda>n. 2 ^ (length (da_channels a) - 1 - m) * n) sp)"
proof (induction d \<equiv> "length (da_channels a) - 1 - m" arbitrary: m sp)
  case 0
  then have m: "m = length (da_channels a) - 1" by simp
  have one: "[m ..< length (da_channels a)] = [m]"
    using 0(2) m by (simp add: upt_conv_Cons)
  have "takes_shape E seg (spec_level_blocks a m)
           (b # nat (spec_prev_width a m) # sp)
           (b # nat (rev (da_channels a) ! m)
              # (if m \<noteq> length (da_channels a) - 1 then map (\<lambda>n. 2 * n) sp else sp))"
    by (rule takes_shape_level[OF schedule_ok_level(1-3)[OF ok 0(2)] 0(3) seg])
  then show ?case using m one by simp
next
  case (Suc d)
  then have m: "m < length (da_channels a) - 1" "Suc m < length (da_channels a)" by simp_all
  have up: "[m ..< length (da_channels a)] = m # [Suc m ..< length (da_channels a)]"
    using Suc.prems(1) by (simp add: upt_conv_Cons)
  have prev: "spec_prev_width a (Suc m) = rev (da_channels a) ! m"
    by (simp add: spec_prev_width_def)
  have lvl: "takes_shape E seg (spec_level_blocks a m)
           (b # nat (spec_prev_width a m) # sp)
           (b # nat (spec_prev_width a (Suc m)) # map (\<lambda>n. 2 * n) sp)"
    using takes_shape_level[OF schedule_ok_level(1-3)[OF ok Suc.prems(1)] Suc.prems(2) seg, of E]
      m(1) prev by simp
  have d: "d = length (da_channels a) - 1 - Suc m" using Suc.hyps(2) by simp
  have rest: "takes_shape E seg
           (concat (map (spec_level_blocks a) [Suc m ..< length (da_channels a)]))
           (b # nat (spec_prev_width a (Suc m)) # map (\<lambda>n. 2 * n) sp)
           (b # nat (rev (da_channels a) ! (length (da_channels a) - 1))
              # map (\<lambda>n. 2 ^ (length (da_channels a) - 1 - Suc m) * n) (map (\<lambda>n. 2 * n) sp))"
    by (rule Suc.hyps(1)[OF d m(2) spatial_ok_double[OF Suc.prems(2)]])
  have pw: "length (da_channels a) - 1 - m = Suc (length (da_channels a) - 1 - Suc m)"
    using m by simp
  have mp: "map (\<lambda>n. 2 ^ (length (da_channels a) - 1 - Suc m) * n) (map (\<lambda>n. 2 * n) sp)
            = map (\<lambda>n. 2 ^ (length (da_channels a) - 1 - m) * n) sp"
    unfolding pw by simp
  show ?case
    using takes_shape_append[OF lvl rest] unfolding up mp by simp
qed

lemma takes_shape_decoder:
  assumes ok: "schedule_ok a" and seg: "seg_ok a b seg"
    and sp: "spatial_ok (da_spatial_dims a) sp"
  shows "takes_shape E seg (spec_decoder_blocks a)
           (b # nat (da_in_channels a) # sp)
           (b # nat (da_out_channels a) # map (\<lambda>n. 2 ^ (length (da_channels a) - 1) * n) sp)"
proof -
  let ?L = "length (da_channels a)"
  let ?w0 = "rev (da_channels a) ! 0"
  let ?wl = "rev (da_channels a) ! (?L - 1)"
  let ?out = "map (\<lambda>n. 2 ^ (?L - 1) * n) sp"
  have pos: "0 < ?L" using ok by (simp add: schedule_ok_def)
  have io: "0 \<le> da_in_channels a" "0 \<le> da_out_channels a"
    using ok by (simp_all add: schedule_ok_def)
  have w0: "0 \<le> ?w0" using schedule_ok_level(2)[OF ok pos] .
  have wl: "0 \<le> ?wl" "spec_level_width a (?L - 1) = ?wl"
    using schedule_ok_level(2,4)[OF ok, of "?L - 1"] pos by simp_all
  have p0: "spec_prev_width a 0 = ?w0" by (simp add: spec_prev_width_def)
  have spo: "spatial_ok (da_spatial_dims a) ?out"
    using sp by (auto simp add: spatial_ok_def list_all_iff)
  have c0: "takes_shape E seg [ConvM (conv3x3 a (da_in_channels a) ?w0)]
      (b # nat (da_in_channels a) # sp) (b # nat ?w0 # sp)"
    by (rule takes_shape_conv3x3[OF sp io(1) w0])
  have r0: "takes_shape E seg [res_block a ?w0 ?w0] (b # nat ?w0 # sp) (b # nat ?w0 # sp)"
    by (rule takes_shape_res_block[OF sp w0 w0 seg])
  have a0: "takes_shape E seg [attn_block a ?w0] (b # nat ?w0 # sp) (b # nat ?w0 # sp)"
    by (rule takes_shape_attn_block[OF sp w0])
  have nl: "takes_shape E seg
      (if da_with_nonlocal_attn a
       then [res_block a ?w0 ?w0, attn_block a ?w0, res_block a ?w0 ?w0] else [])
      (b # nat ?w0 # sp) (b # nat ?w0 # sp)"
    using takes_shape_append[OF r0 takes_shape_append[OF a0 r0]] takes_shape_Nil by simp
  have lv: "takes_shape E seg (concat (map (spec_level_blocks a) [0 ..< ?L]))
      (b # nat ?w0 # sp) (b # nat ?wl # ?out)"
    using takes_shape_levels[OF ok seg pos sp, of E] p0 by simp
  have gn: "takes_shape E seg [NormM (GroupNorm (da_norm_num_groups a) ?wl (da_norm_eps a) True)]
      (b # nat ?wl # ?out) (b # nat ?wl # ?out)"
    by (rule takes_shape_group_norm[OF wl(1)])
  have cl: "takes_shape E seg [ConvM (conv3x3 a ?wl (da_out_channels a))]
      (b # nat ?wl # ?out) (b # nat (da_out_channels a) # ?out)"
    by (rule takes_shape_conv3x3[OF spo wl(1) io(2)])
  have all: "takes_shape E seg
      ([ConvM (conv3x3 a (da_in_channels a) ?w0)]
       @ (if da_with_nonlocal_attn a
          then [res_block a ?w0 ?w0, attn_block a ?w0, res_block a ?w0 ?w0] else [])
       @ concat (map (spec_level_blocks a) [0 ..< ?L])
       @ [NormM (GroupNorm (da_norm_num_groups a) ?wl (da_norm_eps a) True)]
       @ [ConvM (conv3x3 a ?wl (da_out_channels a))])
      (b # nat (da_in_channels a) # sp) (b # nat (da_out_channels a) # ?out)"
    by (rule takes_shape_append[OF c0 takes_shape_append[OF nl takes_shape_append[OF lv
          takes_shape_append[OF gn cl]]]])
  have eq: "spec_decoder_blocks a =
      [ConvM (conv3x3 a (da_in_channels a) ?w0)]
       @ (if da_with_nonlocal_attn a
          then [res_block a ?w0 ?w0, attn_block a ?w0, res_block a ?w0 ?w0] else [])
       @ concat (map (spec_level_blocks a) [0 ..< ?L])
       @ [NormM (GroupNorm (da_norm_num_groups a) ?wl (da_norm_eps a) True)]
       @ [ConvM (conv3x3 a ?wl (da_out_channels a))]"
    using wl(2) by (simp add: spec_decoder_blocks_def Let_def conv3x3_def)
  show ?thesis unfolding eq by (rule all)
qed

lemma SPADEAutoencoderKL_init_Inr:
  assumes "SPADEAutoencoderKL_init a = Inr m"
  shows "SPADEDecoder_init (autoencoder_decoder_args a) = Inr (decoder m)"
    and "post_quant_conv m = Convolution (aa_spatial_dims a) (aa_latent_channels a)
                               (aa_latent_channels a) 1 1 0 True"
    and "quant_conv_mu m = Convolution (aa_spatial_dims a) (aa_latent_channels a)
                               (aa_latent_channels a) 1 1 0 True"
    and "quant_conv_log_sigma m = Convolution (aa_spatial_dims a) (aa_latent_channels a)
                               (aa_latent_channels a) 1 1 0 True"
    and "aa_channels a \<noteq> []"
    and "length (aa_attention_levels a) = length (aa_channels a)"
    and "length (da_num_res_blocks (autoencoder_decoder_args a)) = length (aa_channels a)"
proof -
  have o: "map_sum id (\<lambda>m. ()) (SPADEAutoencoderKL_init a) = Inr ()"
    using assms by simp
  have v: "\<not> not_all_multiples a" "\<not> attention_length_differs a"
      "\<not> res_blocks_length_differs a" "aa_channels a \<noteq> []"
      "\<not> (aa_channels a \<noteq> [] \<and> aa_norm_num_groups a = 0)"
    using o unfolding SPADEAutoencoderKL_init_outcome by (simp_all split: if_splits)
  show "aa_channels a \<noteq> []" by (rule v(4))
  show "length (aa_attention_levels a) = length (aa_channels a)"
    using v(2) by (simp add: attention_length_differs_def)
  show "length (da_num_res_blocks (autoencoder_decoder_args a)) = length (aa_channels a)"
    using v(3) by (simp add: res_blocks_length_differs_def autoencoder_decoder_args_def
        split: num_res_blocks_arg.splits)
  show "SPADEDecoder_init (autoencoder_decoder_args a) = Inr (decoder m)"
    using assms
    by (auto simp add: SPADEAutoencoderKL_init_def Let_def autoencoder_decoder_args_def
        ensure_tuple_rep_def
        split: sum.splits bool.splits if_splits num_res_blocks_arg.splits)
  show "post_quant_conv m = Convolution (aa_spatial_dims a) (aa_latent_channels a)
                               (aa_latent_channels a) 1 1 0 True"
    using assms
    by (auto simp add: SPADEAutoencoderKL_init_def Let_def
        split: sum.splits bool.splits if_splits num_res_blocks_arg.splits)
  show "quant_conv_mu m = Convolution (aa_spatial_dims a) (aa_latent_channels a)
                               (aa_latent_channels a) 1 1 0 True"
    using assms
    by (auto simp add: SPADEAutoencoderKL_init_def Let_def
        split: sum.splits bool.splits if_splits num_res_blocks_arg.splits)
  show "quant_conv_log_sigma m = Convolution (aa_spatial_dims a) (aa_latent_channels a)
                               (aa_latent_channels a) 1 1 0 True"
    using assms
    by (auto simp add: SPADEAutoencoderKL_init_def Let_def
        split: sum.splits bool.splits if_splits num_res_blocks_arg.splits)
qed

lemma autoencoder_schedule_ok:
  assumes init: "SPADEAutoencoderKL_init a = Inr m"
    and w: "widths_ok a" and n: "res_blocks_positive a"
  shows "schedule_ok (autoencoder_decoder_args a)"
proof -
  have "list_all (\<lambda>n. 1 \<le> n) (da_num_res_blocks (autoencoder_decoder_args a))"
    using n by (auto simp add: res_blocks_positive_def autoencoder_decoder_args_def
        list_all_iff split: num_res_blocks_arg.splits)
  then show ?thesis
    using SPADEAutoencoderKL_init_Inr(5-7)[OF init] w
    by (simp add: schedule_ok_def widths_ok_def) (simp add: autoencoder_decoder_args_def)
qed

lemma decode_shape:
  assumes init: "SPADEAutoencoderKL_init a = Inr m"
    and w: "widths_ok a" and n: "res_blocks_positive a"
    and sp: "spatial_ok (aa_spatial_dims a) sp"
    and seg: "seg = b # nat (aa_label_nc a) # ssp" "length ssp = length sp"
  shows "decode shape_torch (shape_layers E) m (b # nat (aa_latent_channels a) # sp) seg () =
           (Inr (b # nat (aa_out_channels a)
                   # map (\<lambda>n. 2 ^ (length (aa_channels a) - 1) * n) sp), ())"
proof -
  let ?d = "autoencoder_decoder_args a"
  have ok: "schedule_ok ?d" by (rule autoencoder_schedule_ok[OF init w n])
  have sp': "spatial_ok (da_spatial_dims ?d) sp"
    using sp by (simp add: autoencoder_decoder_args_def)
  have sg: "seg_ok ?d b seg"
    using seg sp w
    by (simp add: seg_ok_def autoencoder_decoder_args_def spatial_ok_def widths_ok_def)
  have lat: "0 \<le> aa_latent_channels a" using w by (simp add: widths_ok_def)
  have dok: "decoder_args_ok ?d"
    using ok by (intro decoder_args_ok_equal_lengths) (simp_all add: schedule_ok_def)
  have bl: "blocks (decoder m) = spec_decoder_blocks ?d"
    using SPADEDecoder_init_succeeds[OF dok] SPADEAutoencoderKL_init_Inr(1)[OF init] by auto
  have ts: "takes_shape E seg (spec_decoder_blocks ?d)
           (b # nat (da_in_channels ?d) # sp)
           (b # nat (da_out_channels ?d) # map (\<lambda>n. 2 ^ (length (da_channels ?d) - 1) * n) sp)"
    by (rule takes_shape_decoder[OF ok sg sp'])
  have run: "fst (SPADEDecoder_forward (shape_torch :: (nat list, unit) torch) (shape_layers E)
                [Attr ''decoder''] (decoder m) (b # nat (aa_latent_channels a) # sp) seg)
             = Inr (b # nat (aa_out_channels a)
                   # map (\<lambda>n. 2 ^ (length (aa_channels a) - 1) * n) sp)"
    using ts unfolding takes_shape_def SPADEDecoder_forward_def bl
    by (simp add: autoencoder_decoder_args_def)
  have pq: "conv_apply (shape_layers E) [Attr ''post_quant_conv''] (post_quant_conv m)
              (b # nat (aa_latent_channels a) # sp) = Inr (b # nat (aa_latent_channels a) # sp)"
    using conv_shape_same_size(2)[OF sp lat lat]
    by (simp add: SPADEAutoencoderKL_init_Inr(2)[OF init] shape_layers_apply)
  show ?thesis
    by (simp add: decode_def pq run and_then_def)
qed

lemma forward_shape:
  assumes init: "SPADEAutoencoderKL_init a = Inr m"
    and w: "widths_ok a" and n: "res_blocks_positive a"
    and sp: "spatial_ok (aa_spatial_dims a) sp"
    and seg: "seg = b # nat (aa_label_nc a) # ssp" "length ssp = length sp"
    and enc: "E (encoder m) x = Inr (b # nat (aa_latent_channels a) # sp)"
  shows "reconstruct shape_torch (shape_layers E) m x seg () =
           (Inr (b # nat (aa_out_channels a)
                   # map (\<lambda>n. 2 ^ (length (aa_channels a) - 1) * n) sp), ())"
    and "forward shape_torch (shape_layers E) m x seg () =
           (Inr (b # nat (aa_out_channels a)
                   # map (\<lambda>n. 2 ^ (length (aa_channels a) - 1) * n) sp,
                 b # nat (aa_latent_channels a) # sp,
                 b # nat (aa_latent_channels a) # sp), ())"
proof -
  let ?z = "b # nat (aa_latent_channels a) # sp"
  have lat: "0 \<le> aa_latent_channels a" using w by (simp add: widths_ok_def)
  have e: "encode shape_torch (shape_layers E) m x () = (Inr (?z, ?z), ())"
    using enc conv_shape_same_size(2)[OF sp lat lat, of b]
    by (simp add: encode_def and_then_def shape_layers_apply shape_torch_apply Let_def
        SPADEAutoencoderKL_init_Inr(3,4)[OF init])
  have s: "sampling shape_torch ?z ?z () = (Inr ?z, ())"
    by (simp add: sampling_def shape_torch_apply broadcast_shapes_same and_then_def)
  note d = decode_shape[OF init w n sp seg, of E]
  show "reconstruct shape_torch (shape_layers E) m x seg () =
           (Inr (b # nat (aa_out_channels a)
                   # map (\<lambda>n. 2 ^ (length (aa_channels a) - 1) * n) sp), ())"
    by (simp add: reconstruct_def e d)
  show "forward shape_torch (shape_layers E) m x seg () =
           (Inr (b # nat (aa_out_channels a)
                   # map (\<lambda>n. 2 ^ (length (aa_channels a) - 1) * n) sp, ?z, ?z), ())"
    by (simp add: forward_def e s d)
qed

lemma example_args_constructed:
  shows "SPADEAutoencoderKL_init example_args = Inr (projr (SPADEAutoencoderKL_init example_args))"
    and "widths_ok example_args" and "res_blocks_positive example_args"
    and "aa_latent_channels example_args = 3" and "aa_out_channels example_args = 1"
    and "aa_label_nc example_args = 2" and "aa_spatial_dims example_args = 2"
    and "length (aa_channels example_args) = 2"
proof -
  have "map_sum id (\<lambda>m. ()) (SPADEAutoencoderKL_init example_args) = Inr ()"
    unfolding SPADEAutoencoderKL_init_outcome
    by (simp add: example_args_def not_all_multiples_def attention_length_differs_def
        res_blocks_length_differs_def)
  then show "SPADEAutoencoderKL_init example_args = Inr (projr (SPADEAutoencoderKL_init example_args))"
    by (cases "SPADEAutoencoderKL_init example_args") simp_all
qed (simp_all add: example_args_def widths_ok_def res_blocks_positive_def)

lemma example_forward_shape:
  assumes "spatial_ok 2 sp"
  shows "forward shape_torch (shape_layers (encoder_returning (1 # 3 # sp)))
           (projr (SPADEAutoencoderKL_init example_args)) x [1, 2, 64, 64] () =
         (Inr (1 # 1 # map (\<lambda>n. 2 * n) sp, 1 # 3 # sp, 1 # 3 # sp), ())"
proof -
  have sp: "spatial_ok (aa_spatial_dims example_args) sp"
    using assms by (simp add: example_args_constructed(4-8))
  have seg: "[1, 2, 64, 64] = 1 # nat (aa_label_nc example_args) # [64, 64]"
    by (simp add: example_args_constructed(4-8))
  have len: "length [64, 64 :: nat] = length sp"
    using assms by (simp add: spatial_ok_def)
  have enc: "encoder_returning (1 # 3 # sp) (encoder (projr (SPADEAutoencoderKL_init example_args))) x
             = Inr (1 # nat (aa_latent_channels example_args) # sp)"
    by (simp add: encoder_returning_def example_args_constructed(4-8))
  show ?thesis
    using forward_shape(2)[where E="encoder_returning (1 # 3 # sp)" and x=x,
        OF example_args_constructed(1-3) sp seg len enc]
    by (simp add: example_args_constructed(4-8))
qed

text \<open>
  C9 as the specification states it: in the end-to-end scenario (\<open>channels = (32, 64)\<close>,
  an input of shape (1, 1, 64, 64)) \<open>forward\<close> returns a reconstruction of shape
  (1, 1, 64, 64) and mean and sigma of shape (1, 3, 16, 16). The decoder of a two-level
  schedule has one upsample stage: with mean and sigma of shape (1, 3, 16, 16) the
  reconstruction has shape (1, 1, 32, 32).
\<close>

theorem forward_shape_claimed_latent:
  "fst (forward shape_torch (shape_layers (encoder_returning [1, 3, 16, 16]))
          (projr (SPADEAutoencoderKL_init example_args)) [1, 1, 64, 64] [1, 2, 64, 64] ())
     = Inr ([1, 1, 32, 32], [1, 3, 16, 16], [1, 3, 16, 16])
   \<and> fst (forward shape_torch (shape_layers (encoder_returning [1, 3, 16, 16]))
          (projr (SPADEAutoencoderKL_init example_args)) [1, 1, 64, 64] [1, 2, 64, 64] ())
     \<noteq> Inr ([1, 1, 64, 64], [1, 3, 16, 16], [1, 3, 16, 16])"
proof -
  have "spatial_ok 2 [16, 16]" by (simp add: spatial_ok_def)
  then show ?thesis
    using example_forward_shape[of "[16, 16]" "[1, 1, 64, 64]"] by simp
qed

text \<open>
  C9, amended: for a constructed model with non-negative widths and at least one residual
  block per level, \<open>decode\<close> takes a latent of shape \<open>(B, latent_channels, s1, ..., sn)\<close>,
  with a segmentation tensor of \<open>B\<close> batches and \<open>label_nc\<close> channels, to
  \<open>(B, out_channels, k * s1, ..., k * sn)\<close> where \<open>k = 2 ^ (len(channels) - 1)\<close>; so
  whenever the encoder returns a latent of that shape for \<open>x\<close>, \<open>decode(encode(x)[0], seg)\<close>
  and the reconstruction of \<open>forward\<close> have that shape, and mean and sigma have the shape of
  the latent. They have the batch size and spatial shape of \<open>x\<close> exactly when the encoder
  divides the spatial sizes of \<open>x\<close> by \<open>k\<close>.
\<close>

theorem decode_restores_shape:
  assumes init: "SPADEAutoencoderKL_init a = Inr m"
    and w: "widths_ok a" and n: "res_blocks_positive a"
    and sp: "spatial_ok (aa_spatial_dims a) sp"
    and seg: "seg = b # nat (aa_label_nc a) # ssp" "length ssp = length sp"
  shows "fst (decode shape_torch (shape_layers E) m (b # nat (aa_latent_channels a) # sp) seg ())
           = Inr (b # nat (aa_out_channels a)
                    # map (\<lambda>n. 2 ^ (length (aa_channels a) - 1) * n) sp)
         \<and> (E (encoder m) x = Inr (b # nat (aa_latent_channels a) # sp) \<longrightarrow>
              fst (reconstruct shape_torch (shape_layers E) m x seg ())
                = Inr (b # nat (aa_out_channels a)
                         # map (\<lambda>n. 2 ^ (length (aa_channels a) - 1) * n) sp)
              \<and> fst (forward shape_torch (shape_layers E) m x seg ())
                = Inr (b # nat (aa_out_channels a)
                         # map (\<lambda>n. 2 ^ (length (aa_channels a) - 1) * n) sp,
                       b # nat (aa_latent_channels a) # sp,
                       b # nat (aa_latent_channels a) # sp))"
  using decode_shape[OF init w n sp seg, of E] forward_shape[OF init w n sp seg, of E x]
  by simp

text \<open>
  In the end-to-end scenario a reconstruction of shape (1, 1, 64, 64) goes with mean and
  sigma of shape (1, 3, 32, 32).
\<close>

theorem decode_restores_shape_example:
  "fst (decode shape_torch (shape_layers (encoder_returning [1, 3, 32, 32]))
          (projr (SPADEAutoencoderKL_init example_args)) [1, 3, 32, 32] [1, 2, 64, 64] ())
     = Inr [1, 1, 64, 64]
   \<and> fst (forward shape_torch (shape_layers (encoder_returning [1, 3, 32, 32]))
          (projr (SPADEAutoencoderKL_init example_args)) [1, 1, 64, 64] [1, 2, 64, 64] ())
     = Inr ([1, 1, 64, 64], [1, 3, 32, 32], [1, 3, 32, 32])"
proof -
  have sp: "spatial_ok (aa_spatial_dims example_args) [32, 32]"
    by (simp add: example_args_constructed(4-8) spatial_ok_def)
  have seg: "[1, 2, 64, 64] = 1 # nat (aa_label_nc example_args) # [64, 64]"
    by (simp add: example_args_constructed(4-8))
  have len: "length [64, 64 :: nat] = length [32, 32 :: nat]" by simp
  show ?thesis
    using decode_restores_shape[where E="encoder_returning [1, 3, 32, 32]"
        and x="[1, 1, 64, 64]", OF example_args_constructed(1-3) sp seg len]
    by (simp add: example_args_constructed(4-8) encoder_returning_def)
qed

end
